theory Spec2Isabelle
  imports Complex_Main
begin

section \<open>Exceptions as values\<close>

text \<open>
  Every Python exception the modelled functions can raise is a value of \<open>error\<close>; a
  function that may raise returns \<open>error + 'a\<close> with \<open>Inl\<close> for the raise.
  \<open>HTTPError\<close> stands for \<^verbatim>\<open>httpx.HTTPError\<close> and all its subclasses (among them
  \<^verbatim>\<open>ReadTimeout\<close>, \<^verbatim>\<open>ConnectTimeout\<close> and \<^verbatim>\<open>HTTPStatusError\<close>), \<open>HTTPException\<close>
  for FastAPI's exception with its status code and detail, \<open>OtherError\<close> for an
  exception of any other class, given by its class name and message.
\<close>

datatype error =
    ValueError string
  | RuntimeError string
  | IndexError string
  | KeyError string
  | HTTPError string
  | HTTPException int string
  | IntegrityError string
  | MultipleResultsFound string
  | OverflowError string
  | ZeroDivisionError string
  | OtherError string string

fun exc_class :: "error \<Rightarrow> string" where
  "exc_class (ValueError m) = ''ValueError''"
| "exc_class (RuntimeError m) = ''RuntimeError''"
| "exc_class (IndexError m) = ''IndexError''"
| "exc_class (KeyError m) = ''KeyError''"
| "exc_class (HTTPError m) = ''HTTPError''"
| "exc_class (HTTPException c m) = ''HTTPException''"
| "exc_class (IntegrityError m) = ''IntegrityError''"
| "exc_class (MultipleResultsFound m) = ''MultipleResultsFound''"
| "exc_class (OverflowError m) = ''OverflowError''"
| "exc_class (ZeroDivisionError m) = ''ZeroDivisionError''"
| "exc_class (OtherError c m) = c"

fun exc_str :: "error \<Rightarrow> string" where
  "exc_str (ValueError m) = m"
| "exc_str (RuntimeError m) = m"
| "exc_str (IndexError m) = m"
| "exc_str (KeyError m) = m"
| "exc_str (HTTPError m) = m"
| "exc_str (HTTPException c m) = m"
| "exc_str (IntegrityError m) = m"
| "exc_str (MultipleResultsFound m) = m"
| "exc_str (OverflowError m) = m"
| "exc_str (ZeroDivisionError m) = m"
| "exc_str (OtherError c m) = m"

text \<open>Python truthiness of an optional string: \<^verbatim>\<open>None\<close> and \<^verbatim>\<open>""\<close> are false.\<close>

definition truthy :: "string option \<Rightarrow> bool" where
  "truthy v = (case v of None \<Rightarrow> False | Some s \<Rightarrow> s \<noteq> [])"

section \<open>Python floats\<close>

text \<open>
  A Python \<^verbatim>\<open>float\<close> is an IEEE 754 binary64 number: a finite value, an infinity or
  NaN. A finite value is kept as the rational it denotes. The two zeros are one value
  here: they compare equal, and no operation used below tells them apart.
\<close>

datatype pyfloat = Fin rat | PInf | NInf | NaN

text \<open>
  Rounding a rational to the nearest binary64 number, ties to the even significand.
  \<open>bit_length n\<close> is the number of binary digits of \<open>n\<close>; \<open>ilog2 a\<close> is the
  exponent \<open>e\<close> with \<open>2 ^ e \<le> a < 2 ^ (e + 1)\<close>, for \<open>a > 0\<close>. A number with exponent
  \<open>e\<close> has 53 significant bits, so its last place is worth \<open>2 ^ (e - 52)\<close>; below
  \<open>2 ^ - 1022\<close> the spacing stays that of the smallest normal numbers, and a result of
  \<open>2 ^ 1024\<close> or more is an infinity.
\<close>

fun bit_length :: "nat \<Rightarrow> int" where
  "bit_length n = (if n = 0 then 0 else bit_length (n div 2) + 1)"

declare bit_length.simps [simp del]

definition pow2 :: "int \<Rightarrow> rat" where
  "pow2 k = (if 0 \<le> k then 2 ^ nat k else 1 / 2 ^ nat (- k))"

definition ilog2 :: "rat \<Rightarrow> int" where
  "ilog2 a =
     (if 1 \<le> a then bit_length (nat \<lfloor>a\<rfloor>) - 1
      else - bit_length (nat (\<lceil>1 / a\<rceil> - 1)))"

definition round_half_even :: "rat \<Rightarrow> int" where
  "round_half_even y =
     (let f = \<lfloor>y\<rfloor>; d = y - of_int f
      in if d < 1 / 2 then f
         else if 1 / 2 < d then f + 1
         else if even f then f else f + 1)"

definition round_double :: "rat \<Rightarrow> pyfloat" where
  "round_double x =
     (if x = 0 then Fin 0
      else
        let a = \<bar>x\<bar>;
            e = max (ilog2 a) (- 1022);
            n = round_half_even (a / pow2 (e - 52))
        in if 1024 \<le> e \<or> (e = 1023 \<and> n = 2 ^ 53) then (if 0 < x then PInf else NInf)
           else Fin ((if 0 < x then 1 else - 1) * (of_int n * pow2 (e - 52))))"

text \<open>
  The arithmetic operators: the exact result, rounded; the IEEE rules for the infinities
  and NaN. Division by a zero raises in Python.
\<close>

fun fmul :: "pyfloat \<Rightarrow> pyfloat \<Rightarrow> pyfloat" where
  "fmul NaN y = NaN"
| "fmul x NaN = NaN"
| "fmul (Fin a) (Fin b) = round_double (a * b)"
| "fmul (Fin a) PInf = (if a = 0 then NaN else if 0 < a then PInf else NInf)"
| "fmul (Fin a) NInf = (if a = 0 then NaN else if 0 < a then NInf else PInf)"
| "fmul PInf (Fin b) = (if b = 0 then NaN else if 0 < b then PInf else NInf)"
| "fmul NInf (Fin b) = (if b = 0 then NaN else if 0 < b then NInf else PInf)"
| "fmul PInf PInf = PInf"
| "fmul PInf NInf = NInf"
| "fmul NInf PInf = NInf"
| "fmul NInf NInf = PInf"

fun fadd :: "pyfloat \<Rightarrow> pyfloat \<Rightarrow> pyfloat" where
  "fadd NaN y = NaN"
| "fadd x NaN = NaN"
| "fadd (Fin a) (Fin b) = round_double (a + b)"
| "fadd (Fin a) PInf = PInf"
| "fadd (Fin a) NInf = NInf"
| "fadd PInf (Fin b) = PInf"
| "fadd NInf (Fin b) = NInf"
| "fadd PInf PInf = PInf"
| "fadd PInf NInf = NaN"
| "fadd NInf PInf = NaN"
| "fadd NInf NInf = NInf"

fun fdiv :: "pyfloat \<Rightarrow> pyfloat \<Rightarrow> error + pyfloat" where
  "fdiv x (Fin b) =
     (if b = 0 then Inl (ZeroDivisionError ''float division by zero'')
      else (case x of
              Fin a \<Rightarrow> Inr (round_double (a / b))
            | PInf \<Rightarrow> Inr (if 0 < b then PInf else NInf)
            | NInf \<Rightarrow> Inr (if 0 < b then NInf else PInf)
            | NaN \<Rightarrow> Inr NaN))"
| "fdiv (Fin a) PInf = Inr (Fin 0)"
| "fdiv (Fin a) NInf = Inr (Fin 0)"
| "fdiv x y = Inr NaN"

text \<open>
  An \<^verbatim>\<open>int\<close> meeting a \<^verbatim>\<open>float\<close> in arithmetic is converted first, rounded like any
  other number; one too large for a float raises. \<open>int_truediv n y\<close> is \<^verbatim>\<open>n / y\<close> and
  \<open>fmul_int x n\<close> is \<^verbatim>\<open>x * n\<close> for an \<^verbatim>\<open>int\<close> \<open>n\<close> and floats \<open>x\<close>, \<open>y\<close>.
\<close>

definition float_of_int :: "int \<Rightarrow> error + pyfloat" where
  "float_of_int n =
     (case round_double (of_int n) of
        Fin a \<Rightarrow> Inr (Fin a)
      | _ \<Rightarrow> Inl (OverflowError ''int too large to convert to float''))"

definition int_truediv :: "int \<Rightarrow> pyfloat \<Rightarrow> error + pyfloat" where
  "int_truediv n y = (case float_of_int n of Inl e \<Rightarrow> Inl e | Inr x \<Rightarrow> fdiv x y)"

definition fmul_int :: "pyfloat \<Rightarrow> int \<Rightarrow> error + pyfloat" where
  "fmul_int x n = (case float_of_int n of Inl e \<Rightarrow> Inl e | Inr y \<Rightarrow> Inr (fmul x y))"

text \<open>
  The comparisons: every comparison with NaN is false. \<open>flt x y\<close> is \<^verbatim>\<open>x < y\<close> (and
  \<^verbatim>\<open>y > x\<close>), \<open>fle x y\<close> is \<^verbatim>\<open>x <= y\<close>.
\<close>

fun flt :: "pyfloat \<Rightarrow> pyfloat \<Rightarrow> bool" where
  "flt NaN y = False"
| "flt x NaN = False"
| "flt (Fin a) (Fin b) = (a < b)"
| "flt (Fin a) PInf = True"
| "flt (Fin a) NInf = False"
| "flt PInf y = False"
| "flt NInf (Fin b) = True"
| "flt NInf PInf = True"
| "flt NInf NInf = False"

definition fle :: "pyfloat \<Rightarrow> pyfloat \<Rightarrow> bool" where
  "fle x y = (x \<noteq> NaN \<and> y \<noteq> NaN \<and> \<not> flt y x)"

text \<open>
  \<^verbatim>\<open>list.sort(key=...)\<close> is stable and compares the keys with \<^verbatim>\<open><\<close> only. \<open>py_sort\<close>
  is the stable insertion sort that does so: an element moves behind those before it
  only past a strictly greater key. When no key is NaN, \<^verbatim>\<open><\<close> orders the keys and
  every stable sort gives this list; on two elements it is also what the interpreter's
  sort does whatever the keys are, swapping them exactly when the second key is less
  than the first.
\<close>

fun py_insort :: "('a \<Rightarrow> pyfloat) \<Rightarrow> 'a \<Rightarrow> 'a list \<Rightarrow> 'a list" where
  "py_insort k x [] = [x]"
| "py_insort k x (y # ys) = (if flt (k y) (k x) then y # py_insort k x ys else x # y # ys)"

definition py_sort :: "('a \<Rightarrow> pyfloat) \<Rightarrow> 'a list \<Rightarrow> 'a list" where
  "py_sort k xs = foldr (py_insort k) xs []"

text \<open>The float a decimal literal of the source or of a YAML file denotes.\<close>

definition float_literal :: "rat \<Rightarrow> pyfloat" where
  "float_literal q = round_double q"

section \<open>Token estimation (app/token\_utils.py)\<close>

text \<open>
  A Python \<^verbatim>\<open>str\<close> is modelled as a \<open>string\<close> with one \<open>char\<close> per code point, so
  \<open>length\<close> is Python's \<^verbatim>\<open>len\<close>. \<^verbatim>\<open>int(len(text) / 4)\<close> divides as a float and
  truncates; on the non-negative lengths a string can have this is \<open>div 4\<close>.
  Python's \<^verbatim>\<open>int\<close> is unbounded, hence \<open>int\<close>.
\<close>

record TokenStats =
  tokens_in :: int
  tokens_out :: int

definition approx_tokens :: "string \<Rightarrow> int" where
  "approx_tokens text =
     (if text = [] then 0
      else max 1 (int (length text) div 4))"

text \<open>
  The tokenizer is the external library \<^verbatim>\<open>tiktoken\<close>: the parameter \<open>tiktoken\<close>
  gives the length of the encoding of a prompt, or \<open>None\<close> when loading the encoding or
  encoding the prompt raises.
\<close>

definition count_tokens_openai :: "(string \<Rightarrow> int option) \<Rightarrow> string \<Rightarrow> int" where
  "count_tokens_openai tiktoken prompt =
     (case tiktoken prompt of
        Some n \<Rightarrow> n
      | None \<Rightarrow> approx_tokens prompt)"

definition estimate_tokens ::
  "(string \<Rightarrow> int option) \<Rightarrow> string \<Rightarrow> string \<Rightarrow> string \<Rightarrow> int \<Rightarrow> TokenStats" where
  "estimate_tokens tiktoken provider_name model_name prompt expected_output_tokens =
     (let tin = (if provider_name = ''openai'' then count_tokens_openai tiktoken prompt
                 else approx_tokens prompt);
          tout = expected_output_tokens
      in \<lparr>tokens_in = tin, tokens_out = tout\<rparr>)"

section \<open>Routing policy (app/routing\_policy.py)\<close>

text \<open>
  A row of the price table has the fields of the YAML shape the module documents; the
  code indexes every one of them (\<^verbatim>\<open>row["provider"]\<close>), so all are present. The
  prices are floats, the limits and the quality integers.
\<close>

record ModelRow =
  provider :: string
  model :: string
  price_in_per_1k :: pyfloat
  price_out_per_1k :: pyfloat
  max_input_tokens :: int
  max_output_tokens :: int
  baseline_quality :: int

record RouteDecision =
  rd_provider :: string
  rd_model :: string
  estimated_cost_usd :: pyfloat
  system_prompt :: string
  temperature :: pyfloat
  cache_hit :: bool
  tokens :: TokenStats

text \<open>
  \<^verbatim>\<open>provider_hints.get(k) and row[k] != provider_hints[k]\<close>: a hint that is absent or
  empty rejects nothing.
\<close>

definition hint_rejects :: "(string \<rightharpoonup> string) \<Rightarrow> string \<Rightarrow> string \<Rightarrow> bool" where
  "hint_rejects provider_hints k v =
     (case provider_hints k of
        None \<Rightarrow> False
      | Some h \<Rightarrow> h \<noteq> [] \<and> v \<noteq> h)"

text \<open>
  The estimated cost, in the float arithmetic of the source:
  \<^verbatim>\<open>(tokens_in / 1000.0) * price_in + (tokens_out / 1000.0) * price_out\<close>. Dividing a
  token count too large for a float raises \<^verbatim>\<open>OverflowError\<close>.
\<close>

definition estimated_cost :: "ModelRow \<Rightarrow> TokenStats \<Rightarrow> error + pyfloat" where
  "estimated_cost row t =
     (case int_truediv (tokens_in t) (Fin 1000) of
        Inl e \<Rightarrow> Inl e
      | Inr kin \<Rightarrow>
          (case int_truediv (tokens_out t) (Fin 1000) of
             Inl e \<Rightarrow> Inl e
           | Inr kout \<Rightarrow>
               Inr (fadd (fmul kin (price_in_per_1k row)) (fmul kout (price_out_per_1k row)))))"

text \<open>
  The body of the loop of \<^verbatim>\<open>choose_model\<close> for one row: \<open>Inr None\<close> when the row
  is skipped (\<^verbatim>\<open>continue\<close>), \<open>Inr (Some c)\<close> when \<open>c\<close> is appended to
  \<^verbatim>\<open>candidates\<close>, \<open>Inl\<close> when the body raises.
\<close>

definition consider_row ::
  "(string \<Rightarrow> int option) \<Rightarrow> string \<Rightarrow> int \<Rightarrow> int \<Rightarrow> pyfloat \<Rightarrow> (string \<rightharpoonup> string) \<Rightarrow>
   ModelRow \<Rightarrow> error + (ModelRow \<times> pyfloat \<times> TokenStats) option" where
  "consider_row tiktoken input_text expected_output_tokens quality_floor cost_ceiling
     provider_hints row =
     (if hint_rejects provider_hints ''provider'' (provider row) then Inr None
      else if hint_rejects provider_hints ''model'' (model row) then Inr None
      else if baseline_quality row < quality_floor then Inr None
      else
        let t = estimate_tokens tiktoken (provider row) (model row) input_text
                  expected_output_tokens
        in if tokens_in t > max_input_tokens row then Inr None
           else if tokens_out t > max_output_tokens row then Inr None
           else
             (case estimated_cost row t of
                Inl e \<Rightarrow> Inl e
              | Inr cost \<Rightarrow>
                  if flt (Fin 0) cost_ceiling \<and> flt cost_ceiling cost then Inr None
                  else Inr (Some (row, cost, t))))"

text \<open>The loop over \<^verbatim>\<open>self.price_rows\<close>; the first row whose body raises ends it.\<close>

fun candidates_of ::
  "(string \<Rightarrow> int option) \<Rightarrow> string \<Rightarrow> int \<Rightarrow> int \<Rightarrow> pyfloat \<Rightarrow> (string \<rightharpoonup> string) \<Rightarrow>
   ModelRow list \<Rightarrow> error + (ModelRow \<times> pyfloat \<times> TokenStats) list" where
  "candidates_of tiktoken input_text expected_output_tokens quality_floor cost_ceiling
     provider_hints [] = Inr []"
| "candidates_of tiktoken input_text expected_output_tokens quality_floor cost_ceiling
     provider_hints (row # rows) =
     (case consider_row tiktoken input_text expected_output_tokens quality_floor cost_ceiling
             provider_hints row of
        Inl e \<Rightarrow> Inl e
      | Inr c \<Rightarrow>
          (case candidates_of tiktoken input_text expected_output_tokens quality_floor
                  cost_ceiling provider_hints rows of
             Inl e \<Rightarrow> Inl e
           | Inr rest \<Rightarrow> Inr ((case c of None \<Rightarrow> [] | Some x \<Rightarrow> [x]) @ rest)))"

text \<open>
  \<^verbatim>\<open>candidates.sort(key=lambda x: x[1])\<close>, then \<^verbatim>\<open>candidates[0]\<close>.
  \<open>DEFAULT_SYSTEM_PROMPT\<close> is the setting of that name.
\<close>

definition no_models_message :: string where
  "no_models_message =
     ''No models meet your quality or budget. '' @
     ''Try lowering quality_floor or raising cost_ceiling_usd.''"

definition decision_of ::
  "string \<Rightarrow> ModelRow \<times> pyfloat \<times> TokenStats \<Rightarrow> RouteDecision" where
  "decision_of DEFAULT_SYSTEM_PROMPT c =
     (case c of
        (row, cost, t) \<Rightarrow>
          \<lparr>rd_provider = provider row, rd_model = model row,
           estimated_cost_usd = cost,
           system_prompt = DEFAULT_SYSTEM_PROMPT,
           temperature = float_literal (2 / 10),
           cache_hit = False,
           tokens = t\<rparr>)"

definition choose_model ::
  "string \<Rightarrow> (string \<Rightarrow> int option) \<Rightarrow> ModelRow list \<Rightarrow> string \<Rightarrow> int \<Rightarrow> int \<Rightarrow> pyfloat \<Rightarrow>
   (string \<rightharpoonup> string) \<Rightarrow> error + RouteDecision" where
  "choose_model DEFAULT_SYSTEM_PROMPT tiktoken price_rows input_text expected_output_tokens
     quality_floor cost_ceiling provider_hints =
     (case candidates_of tiktoken input_text expected_output_tokens quality_floor cost_ceiling
             provider_hints price_rows of
        Inl e \<Rightarrow> Inl e
      | Inr candidates \<Rightarrow>
          if candidates = [] then Inl (ValueError no_models_message)
          else
            (case py_sort (\<lambda>x. fst (snd x)) candidates of
               [] \<Rightarrow> Inl (IndexError ''list index out of range'')
             | c # _ \<Rightarrow> Inr (decision_of DEFAULT_SYSTEM_PROMPT c)))"

text \<open>
  The catalogs used as concrete inputs: the two rows of the specification's scenarios, a
  second free local row, and a row whose input price is infinite.
\<close>

definition local_tiny :: ModelRow where
  "local_tiny = \<lparr>provider = ''local'', model = ''tiny'', price_in_per_1k = Fin 0,
     price_out_per_1k = Fin 0, max_input_tokens = 1000000, max_output_tokens = 1000000,
     baseline_quality = 2\<rparr>"

definition hosted_big :: ModelRow where
  "hosted_big = \<lparr>provider = ''hosted'', model = ''big'',
     price_in_per_1k = float_literal (2 / 1000), price_out_per_1k = float_literal (6 / 1000),
     max_input_tokens = 1000000, max_output_tokens = 1000000, baseline_quality = 4\<rparr>"

definition local_tiny2 :: ModelRow where
  "local_tiny2 = local_tiny\<lparr>model := ''tiny2''\<rparr>"


definition no_tiktoken :: "string \<Rightarrow> int option" where
  "no_tiktoken prompt = None"

text \<open>
  Two catalogs on which the rounding of the float arithmetic shows: rows \<open>nine_in\<close> and
  \<open>one_out\<close> cost the same in exact arithmetic for one input and nine output tokens,
  and \<open>unit_priced\<close> costs exactly 0.3 for 100 and 200 tokens.
\<close>

definition nine_in :: ModelRow where
  "nine_in = \<lparr>provider = ''hosted'', model = ''x'', price_in_per_1k = Fin 9,
     price_out_per_1k = Fin 0, max_input_tokens = 1000000, max_output_tokens = 1000000,
     baseline_quality = 3\<rparr>"

definition one_out :: ModelRow where
  "one_out = \<lparr>provider = ''hosted'', model = ''y'', price_in_per_1k = Fin 0,
     price_out_per_1k = Fin 1, max_input_tokens = 1000000, max_output_tokens = 1000000,
     baseline_quality = 3\<rparr>"

definition unit_priced :: ModelRow where
  "unit_priced = \<lparr>provider = ''openai'', model = ''unit'', price_in_per_1k = Fin 1,
     price_out_per_1k = Fin 1, max_input_tokens = 1000000, max_output_tokens = 1000000,
     baseline_quality = 3\<rparr>"

definition hundred_tokens :: "string \<Rightarrow> int option" where
  "hundred_tokens prompt = Some 100"

section \<open>The local model call with retry and fallback (api/main.py)\<close>

text \<open>
  The module reads its retry settings and model presets from the environment once; they
  are the fields of \<open>ollama_config\<close>, with the defaults of the source in
  \<open>default_config\<close>.
\<close>

record ollama_config =
  RETRIES :: int
  RETRY_BACKOFF_S :: pyfloat
  MODEL_TRIAGE_PRIMARY :: string
  MODEL_TRIAGE_FALLBACK :: string

definition default_config :: ollama_config where
  "default_config = \<lparr>RETRIES = 2, RETRY_BACKOFF_S = Fin 5,
     MODEL_TRIAGE_PRIMARY = ''phi3:mini'', MODEL_TRIAGE_FALLBACK = ''tinyllama''\<rparr>"

text \<open>
  The module also loads the \<^verbatim>\<open>retry\<close> block of the price table's \<^verbatim>\<open>policy\<close> into
  \<^verbatim>\<open>_POLICY\<close>; \<open>default_policy\<close> is the block \<^verbatim>\<open>_load_price_table\<close> supplies when
  the file is missing. No function of the module reads it.
\<close>

record retry_policy =
  max_attempts :: int
  initial_backoff_ms :: int
  multiplier :: pyfloat

definition default_policy :: retry_policy where
  "default_policy = \<lparr>max_attempts = 2, initial_backoff_ms = 400, multiplier = Fin 2\<rparr>"

text \<open>
  The effects of \<^verbatim>\<open>call_ollama\<close> are the requests it posts and the waits it makes: a
  trace lists them in the order they happen, \<open>Post m\<close> for a \<^verbatim>\<open>/api/generate\<close> request
  for model \<open>m\<close>, \<open>Slept d\<close> for a \<^verbatim>\<open>time.sleep(d)\<close> that returned.
\<close>

datatype event = Post string | Slept pyfloat

fun posts :: "event list \<Rightarrow> string list" where
  "posts [] = []"
| "posts (Post m # es) = m # posts es"
| "posts (Slept d # es) = posts es"

fun waits :: "event list \<Rightarrow> pyfloat list" where
  "waits [] = []"
| "waits (Post m # es) = waits es"
| "waits (Slept d # es) = d # waits es"

text \<open>
  The server is a parameter: given the number of requests made before, the model and the
  prompt, it answers with the value of the \<^verbatim>\<open>response\<close> key of the JSON body (\<open>None\<close>
  when the key is absent), or the request, \<^verbatim>\<open>raise_for_status\<close> or the decoding
  raises. So is \<^verbatim>\<open>time.sleep\<close>: \<open>None\<close> when it returns, the exception when it raises
  (as it does for a negative or NaN argument).
\<close>

type_synonym server = "nat \<Rightarrow> string \<Rightarrow> string \<Rightarrow> error + string option"

type_synonym sleeper = "pyfloat \<Rightarrow> error option"

definition post_generate ::
  "server \<Rightarrow> string \<Rightarrow> string \<Rightarrow> event list \<Rightarrow> (error + string option) \<times> event list" where
  "post_generate ollama model_name prompt w =
     (ollama (length (posts w)) model_name prompt, w @ [Post model_name])"

text \<open>\<^verbatim>\<open>data.get("response", "")\<close>.\<close>

definition response_text :: "string option \<Rightarrow> string" where
  "response_text data = (case data of None \<Rightarrow> [] | Some s \<Rightarrow> s)"

text \<open>
  \<^verbatim>\<open>except (httpx.ReadTimeout, httpx.ConnectTimeout, httpx.HTTPError)\<close>: the first two
  are subclasses of the third.
\<close>

fun caught :: "error \<Rightarrow> bool" where
  "caught (HTTPError m) = True"
| "caught e = False"

text \<open>
  The body of \<^verbatim>\<open>for attempt in range(retries + 1)\<close>, over the attempts that remain;
  when the range is exhausted the function raises its last \<^verbatim>\<open>HTTPException\<close>. The
  wait is \<^verbatim>\<open>RETRY_BACKOFF_S * (attempt + 1)\<close>, a float times an \<^verbatim>\<open>int\<close>; an exception
  of the multiplication or of the sleep leaves the function, being raised inside the
  handler.
\<close>

fun call_ollama_loop ::
  "ollama_config \<Rightarrow> sleeper \<Rightarrow> server \<Rightarrow> string \<Rightarrow> string \<Rightarrow> int \<Rightarrow> nat list \<Rightarrow> event list \<Rightarrow>
   (error + string) \<times> event list" where
  "call_ollama_loop cfg time_sleep ollama model_name prompt retries [] w =
     (Inl (HTTPException 502 ''Ollama call fell through unexpectedly''), w)"
| "call_ollama_loop cfg time_sleep ollama model_name prompt retries (attempt # rest) w =
     (case post_generate ollama model_name prompt w of
        (Inr data, w1) \<Rightarrow> (Inr (response_text data), w1)
      | (Inl e, w1) \<Rightarrow>
          if \<not> caught e then (Inl e, w1)
          else if int attempt < retries then
            (case fmul_int (RETRY_BACKOFF_S cfg) (int attempt + 1) of
               Inl e' \<Rightarrow> (Inl e', w1)
             | Inr d \<Rightarrow>
                 (case time_sleep d of
                    Some e' \<Rightarrow> (Inl e', w1)
                  | None \<Rightarrow>
                      call_ollama_loop cfg time_sleep ollama model_name prompt retries rest
                        (w1 @ [Slept d])))
          else if model_name = MODEL_TRIAGE_PRIMARY cfg \<and> MODEL_TRIAGE_FALLBACK cfg \<noteq> [] then
            (case post_generate ollama (MODEL_TRIAGE_FALLBACK cfg) prompt w1 of
               (Inr data, w2) \<Rightarrow> (Inr (response_text data), w2)
             | (Inl e2, w2) \<Rightarrow>
                 (Inl (HTTPException 502
                    (''Ollama error (fallback failed): '' @ exc_str e2)), w2))
          else (Inl (HTTPException 502 (''Ollama error: '' @ exc_str e)), w1))"

definition call_ollama ::
  "ollama_config \<Rightarrow> sleeper \<Rightarrow> server \<Rightarrow> string \<Rightarrow> string \<Rightarrow> int \<Rightarrow> event list \<Rightarrow>
   (error + string) \<times> event list" where
  "call_ollama cfg time_sleep ollama model_name prompt retries w =
     call_ollama_loop cfg time_sleep ollama model_name prompt retries
       [0..<nat (retries + 1)] w"

text \<open>
  The trace of \<open>n\<close> attempts on one model, the first of them being attempt number \<open>a\<close>
  of the loop: a request, and before each further request the wait the loop makes after
  a failed attempt, \<^verbatim>\<open>RETRY_BACKOFF_S\<close> times the number of attempts made so far.
\<close>

definition backoff_wait :: "ollama_config \<Rightarrow> nat \<Rightarrow> pyfloat" where
  "backoff_wait cfg i = fmul (RETRY_BACKOFF_S cfg) (round_double (of_nat i))"

fun retry_trace :: "ollama_config \<Rightarrow> string \<Rightarrow> nat \<Rightarrow> nat \<Rightarrow> event list" where
  "retry_trace cfg m a 0 = []"
| "retry_trace cfg m a (Suc 0) = [Post m]"
| "retry_trace cfg m a (Suc (Suc n)) =
     Post m # Slept (backoff_wait cfg (Suc a)) # retry_trace cfg m (Suc a) (Suc n)"

text \<open>
  A server on which every request times out, and a \<^verbatim>\<open>time.sleep\<close> that returns, as it
  does for the waits of the examples.
\<close>

definition always_timeout :: server where
  "always_timeout n model_name prompt = Inl (HTTPError ''ReadTimeout'')"

definition sleep_ok :: sleeper where
  "sleep_ok d = None"

text \<open>
  Exponential backoff as the specification words it: each wait is the previous wait
  multiplied by one constant factor greater than 1.
\<close>

fun constant_ratio :: "rat \<Rightarrow> pyfloat list \<Rightarrow> bool" where
  "constant_ratio c (Fin a # Fin b # ds) = (b = c * a \<and> constant_ratio c (Fin b # ds))"
| "constant_ratio c (x # y # ds) = False"
| "constant_ratio c ds = True"

definition grows_exponentially :: "pyfloat list \<Rightarrow> bool" where
  "grows_exponentially ds = (\<exists>c. 1 < c \<and> constant_ratio c ds)"

section \<open>Provider adapters (app/providers)\<close>

text \<open>
  Python's \<^verbatim>\<open>str.strip()\<close> removes leading and trailing whitespace; on the code
  points a \<open>char\<close> can hold, the whitespace characters are the following.
\<close>

definition is_space :: "char \<Rightarrow> bool" where
  "is_space c =
     (let n = (of_char c :: nat)
      in n = 32 \<or> (9 \<le> n \<and> n \<le> 13) \<or> (28 \<le> n \<and> n \<le> 31) \<or> n = 133 \<or> n = 160)"

definition strip :: "string \<Rightarrow> string" where
  "strip s = rev (dropWhile is_space (rev (dropWhile is_space s)))"

text \<open>
  The JSON body of a successful \<^verbatim>\<open>/api/generate\<close> response of the local server, as
  far as the adapter reads it. A key that is absent or \<^verbatim>\<open>null\<close> is \<open>None\<close>.
\<close>

record ollama_json =
  response :: "string option"
  prompt_eval_count :: "int option"
  eval_count :: "int option"

text \<open>\<^verbatim>\<open>int(j.get(k, 0) or 0)\<close> and \<^verbatim>\<open>(j.get(k) or "")\<close>.\<close>

definition int_or_0 :: "int option \<Rightarrow> int" where
  "int_or_0 v = (case v of None \<Rightarrow> 0 | Some n \<Rightarrow> n)"

definition str_or_empty :: "string option \<Rightarrow> string" where
  "str_or_empty v = (case v of None \<Rightarrow> [] | Some s \<Rightarrow> s)"

text \<open>
  \<^verbatim>\<open>OllamaAdapter.complete\<close>. Everything inside its \<^verbatim>\<open>async with\<close> block is traffic
  with the server (listing the installed models, choosing one, posting the request,
  \<^verbatim>\<open>raise_for_status\<close>, decoding); its outcome is the parameter \<open>upstream\<close>, the
  decoded body or the exception raised there. The model follows the function from that
  point to its return.
\<close>

definition OllamaAdapter_complete :: "error + ollama_json \<Rightarrow> error + (string \<times> TokenStats)" where
  "OllamaAdapter_complete upstream =
     (case upstream of
        Inl e \<Rightarrow> Inl e
      | Inr j \<Rightarrow>
          (let text = strip (str_or_empty (response j));
               tin = int_or_0 (prompt_eval_count j);
               tout = int_or_0 (eval_count j)
           in Inr (text, \<lparr>tokens_in = tin, tokens_out = tout\<rparr>)))"

text \<open>The chat-completion body the OpenAI adapter reads.\<close>

record openai_message =
  content :: "string option"

record openai_choice =
  message :: "openai_message option"

record openai_usage =
  prompt_tokens :: "int option"
  completion_tokens :: "int option"

record openai_json =
  choices :: "openai_choice list option"
  usage :: "openai_usage option"

text \<open>\<^verbatim>\<open>usage = j.get("usage") or {}\<close> followed by \<^verbatim>\<open>usage.get(k, 0) or 0\<close>.\<close>

definition usage_field :: "openai_usage option \<Rightarrow> (openai_usage \<Rightarrow> int option) \<Rightarrow> int" where
  "usage_field u field = (case u of None \<Rightarrow> 0 | Some r \<Rightarrow> int_or_0 (field r))"

definition choice_text :: "openai_choice list option \<Rightarrow> string" where
  "choice_text cs =
     (case cs of
        None \<Rightarrow> []
      | Some [] \<Rightarrow> []
      | Some (c # _) \<Rightarrow>
          (case message c of
             None \<Rightarrow> strip []
           | Some msg \<Rightarrow> strip (str_or_empty (content msg))))"

text \<open>
  \<^verbatim>\<open>OpenAIAdapter.complete\<close>: \<open>OPENAI_API_KEY\<close> is the setting of that name,
  \<open>upstream\<close> the outcome of the request, \<^verbatim>\<open>raise_for_status\<close> and the decoding.
\<close>

definition OpenAIAdapter_complete ::
  "string option \<Rightarrow> error + openai_json \<Rightarrow> error + (string \<times> TokenStats)" where
  "OpenAIAdapter_complete OPENAI_API_KEY upstream =
     (if \<not> truthy OPENAI_API_KEY then Inl (RuntimeError ''OPENAI_API_KEY not configured'')
      else
        (case upstream of
           Inl e \<Rightarrow> Inl e
         | Inr j \<Rightarrow>
             (let text = choice_text (choices j);
                  tin = max 0 (usage_field (usage j) prompt_tokens);
                  tout = max 0 (usage_field (usage j) completion_tokens)
              in Inr (text, \<lparr>tokens_in = tin, tokens_out = tout\<rparr>))))"

section \<open>The job store (app/models.py)\<close>

datatype JobStatus = queued | running | succeeded | failed

text \<open>
  A row of the \<^verbatim>\<open>jobs\<close> table. Timestamps are numbers; the table is the list of its
  rows, with \<^verbatim>\<open>job_id\<close> the primary key.
\<close>

record Job =
  job_id :: string
  user_id :: string
  task_type :: string
  status :: JobStatus
  created_at :: nat
  updated_at :: nat
  cost_ceiling_usd :: pyfloat
  dedupe_key :: "string option"

text \<open>
  \<^verbatim>\<open>session.add(defaults); await session.flush()\<close> inserts the row; the database
  refuses a second row with the same primary key.
\<close>

definition insert_job :: "Job list \<Rightarrow> Job \<Rightarrow> error + (Job \<times> Job list)" where
  "insert_job tbl j =
     (if job_id j \<in> set (map job_id tbl) then Inl (IntegrityError ''duplicate key jobs.job_id'')
      else Inr (j, tbl @ [j]))"

text \<open>
  \<^verbatim>\<open>upsert_job_by_dedupe_key\<close>: \<open>now\<close> is \<^verbatim>\<open>datetime.utcnow()\<close>, \<open>tbl\<close> the table
  as the session sees it; the result is the job returned and the table after the flush.
  \<^verbatim>\<open>scalar_one_or_none\<close> raises when the select finds more than one row.
\<close>

definition upsert_job_by_dedupe_key ::
  "nat \<Rightarrow> Job list \<Rightarrow> string option \<Rightarrow> Job \<Rightarrow> error + (Job \<times> Job list)" where
  "upsert_job_by_dedupe_key now tbl key defaults =
     (if \<not> truthy key then insert_job tbl defaults
      else
        (case filter (\<lambda>j. dedupe_key j = key) tbl of
           [] \<Rightarrow> insert_job tbl defaults
         | [job] \<Rightarrow>
             (let job' = job\<lparr>updated_at := now\<rparr>
              in Inr (job', map (\<lambda>j. if job_id j = job_id job then job' else j) tbl))
         | _ \<Rightarrow> Inl (MultipleResultsFound
                    ''Multiple rows were found when one or none was required'')))"

text \<open>A job as a caller would submit it, for concrete inputs.\<close>

definition new_job :: "string \<Rightarrow> string option \<Rightarrow> nat \<Rightarrow> Job" where
  "new_job jid key t = \<lparr>job_id = jid, user_id = ''u1'', task_type = ''summarize'',
     status = queued, created_at = t, updated_at = t, cost_ceiling_usd = Fin 0,
     dedupe_key = key\<rparr>"

section \<open>The queue worker (app/queue\_worker.py)\<close>

record JobCost =
  jc_job_id :: string
  jc_provider :: string
  jc_model :: string
  jc_tokens_in :: int
  jc_tokens_out :: int
  cost_usd :: pyfloat
  latency_ms :: int

record Event =
  ev_job_id :: string
  level :: string
  ev_message :: string

text \<open>The committed contents of the database: the three tables the worker touches.\<close>

record database =
  jobs :: "Job list"
  job_costs :: "JobCost list"
  events :: "Event list"

definition get_job_by_id :: "database \<Rightarrow> string \<Rightarrow> Job option" where
  "get_job_by_id db jid = find (\<lambda>j. job_id j = jid) (jobs db)"

definition set_status :: "string \<Rightarrow> JobStatus \<Rightarrow> database \<Rightarrow> database" where
  "set_status jid s db =
     db\<lparr>jobs := map (\<lambda>j. if job_id j = jid then j\<lparr>status := s\<rparr> else j) (jobs db)\<rparr>"

definition record_cost ::
  "string \<Rightarrow> string \<Rightarrow> string \<Rightarrow> int \<Rightarrow> int \<Rightarrow> pyfloat \<Rightarrow> int \<Rightarrow> database \<Rightarrow> database" where
  "record_cost jid p m tin tout c l db =
     db\<lparr>job_costs := job_costs db @
       [\<lparr>jc_job_id = jid, jc_provider = p, jc_model = m, jc_tokens_in = tin,
         jc_tokens_out = tout, cost_usd = c, latency_ms = l\<rparr>]\<rparr>"

definition record_event :: "string \<Rightarrow> string \<Rightarrow> string \<Rightarrow> database \<Rightarrow> database" where
  "record_event jid lvl msg db =
     db\<lparr>events := events db @ [\<lparr>ev_job_id = jid, level = lvl, ev_message = msg\<rparr>]\<rparr>"

text \<open>\<^verbatim>\<open>LLMAdapterRegistry.get\<close>: the providers that have an adapter.\<close>

definition LLMAdapterRegistry_get :: "string \<Rightarrow> error + string" where
  "LLMAdapterRegistry_get p =
     (if p \<in> set [''openai'', ''anthropic'', ''google'', ''mistral'', ''ollama'', ''local'']
      then Inr p
      else Inl (ValueError (''Unknown provider '' @ [CHR 0x27] @ p @ [CHR 0x27])))"

text \<open>
  The body of a queue message, as the worker reads it with \<^verbatim>\<open>body.get\<close>: \<open>None\<close> is a
  key that is absent.
\<close>

record message_body =
  b_prompt :: "string option"
  b_redact_pii :: bool
  b_expected_output_tokens :: "int option"
  b_quality_floor :: "int option"
  b_cost_ceiling_usd :: "pyfloat option"
  b_provider_hints :: "(string \<rightharpoonup> string) option"

text \<open>
  One call of \<^verbatim>\<open>adapter.complete\<close>: the adapter called and the arguments it is
  given. The worker's calls are logged in the order they are made.
\<close>

record adapter_call =
  ac_adapter :: string
  ac_model :: string
  ac_prompt :: string
  ac_max_tokens :: int
  ac_temperature :: pyfloat
  ac_system_prompt :: string
  ac_timeout_s :: int

text \<open>
  What is outside the worker is a parameter, gathered in \<open>worker_env\<close>: the settings it
  reads, the PII redaction (built on the regular expression library), the price table as
  \<^verbatim>\<open>RoutingPolicy()\<close> loads it (or the exception of the load), the tokenizer, and the
  providers: \<open>adapter_complete env n c\<close> is what the call \<open>c\<close> returns or raises when
  \<open>n\<close> calls were made before it.
\<close>

record worker_env =
  DEFAULT_SYSTEM_PROMPT :: string
  PII_REDACTION_ENABLED :: bool
  LLM_TIMEOUT_S :: int
  maybe_redact_pii :: "string \<Rightarrow> string"
  price_table :: "error + ModelRow list"
  tokenizer :: "string \<Rightarrow> int option"
  adapter_complete :: "nat \<Rightarrow> adapter_call \<Rightarrow> error + (string \<times> TokenStats)"

text \<open>
  \<^verbatim>\<open>message.process(requeue=True)\<close> acknowledges the message when the handler
  returns and rejects it for redelivery when the handler raises, letting the exception
  through.
\<close>

datatype delivery = Ack | Requeue error

definition option_or :: "'a option \<Rightarrow> 'a \<Rightarrow> 'a" where
  "option_or v d = (case v of None \<Rightarrow> d | Some x \<Rightarrow> x)"

text \<open>
  \<^verbatim>\<open>_handle_message\<close> on the payload \<^verbatim>\<open>{"job_id": jid, "body": body}\<close>, in the
  stages its comments name. First the prompt, with the optional redaction.
\<close>

definition prepare_prompt :: "worker_env \<Rightarrow> message_body \<Rightarrow> string" where
  "prepare_prompt env body =
     (let prompt0 = option_or (b_prompt body) [];
          redact = (b_redact_pii body \<and> PII_REDACTION_ENABLED env)
      in if redact then maybe_redact_pii env prompt0 else prompt0)"

text \<open>Choosing a model: \<^verbatim>\<open>RoutingPolicy()\<close> loads the table, then \<^verbatim>\<open>choose_model\<close>.\<close>

definition choose_for :: "worker_env \<Rightarrow> message_body \<Rightarrow> string \<Rightarrow> error + RouteDecision" where
  "choose_for env body prompt1 =
     (case price_table env of
        Inl e \<Rightarrow> Inl e
      | Inr price_rows \<Rightarrow>
          choose_model (DEFAULT_SYSTEM_PROMPT env) (tokenizer env) price_rows prompt1
            (option_or (b_expected_output_tokens body) 512)
            (option_or (b_quality_floor body) 1)
            (option_or (b_cost_ceiling_usd body) (float_literal (1 / 10)))
            (option_or (b_provider_hints body) Map.empty))"

text \<open>
  Calling the provider: the registry lookup, then one call of \<^verbatim>\<open>adapter.complete\<close>
  with the arguments of \<open>provider_request\<close>, which the list \<open>made\<close> of the calls made records. The worker has no
  retry and no fallback.
\<close>

definition provider_request ::
  "worker_env \<Rightarrow> message_body \<Rightarrow> string \<Rightarrow> RouteDecision \<Rightarrow> string \<Rightarrow> adapter_call" where
  "provider_request env body prompt1 decision adapter =
     \<lparr>ac_adapter = adapter, ac_model = rd_model decision, ac_prompt = prompt1,
      ac_max_tokens = option_or (b_expected_output_tokens body) 512,
      ac_temperature = temperature decision,
      ac_system_prompt = system_prompt decision,
      ac_timeout_s = LLM_TIMEOUT_S env\<rparr>"

definition call_provider ::
  "worker_env \<Rightarrow> message_body \<Rightarrow> string \<Rightarrow> RouteDecision \<Rightarrow> adapter_call list \<Rightarrow>
   (error + (string \<times> TokenStats)) \<times> adapter_call list" where
  "call_provider env body prompt1 decision made =
     (case LLMAdapterRegistry_get (rd_provider decision) of
        Inl e \<Rightarrow> (Inl e, made)
      | Inr adapter \<Rightarrow>
          (let req = provider_request env body prompt1 decision adapter
           in (adapter_complete env (length made) req, made @ [req])))"

text \<open>Recording cost and status, committed together; \<open>elapsed_ms\<close> is the measured latency.\<close>

definition record_success ::
  "int \<Rightarrow> string \<Rightarrow> RouteDecision \<Rightarrow> TokenStats \<Rightarrow> database \<Rightarrow> database" where
  "record_success elapsed_ms jid decision token_stats db1 =
     (case get_job_by_id db1 jid of
        None \<Rightarrow> db1
      | Some db_job \<Rightarrow>
          record_event (job_id db_job) ''info''
            (''Routed to '' @ rd_provider decision @ '':'' @ rd_model decision)
            (record_cost (job_id db_job) (rd_provider decision) (rd_model decision)
               (tokens_in token_stats) (tokens_out token_stats)
               (estimated_cost_usd decision) elapsed_ms
               (set_status jid succeeded db1)))"

text \<open>
  The handler: a missing job ends it at once; otherwise the job is marked running and
  that is committed before anything else. An exception of a later stage leaves the
  handler through \<^verbatim>\<open>message.process\<close>; no stage catches one. The result is what
  becomes of the message, the database as committed, and the list of provider calls made.
\<close>

definition handle_message ::
  "worker_env \<Rightarrow> int \<Rightarrow> string \<Rightarrow> message_body \<Rightarrow> database \<Rightarrow> adapter_call list \<Rightarrow>
   delivery \<times> database \<times> adapter_call list" where
  "handle_message env elapsed_ms jid body db made =
     (case get_job_by_id db jid of
        None \<Rightarrow> (Ack, db, made)
      | Some job \<Rightarrow>
          (let db1 = set_status jid running db;
               prompt1 = prepare_prompt env body
           in case choose_for env body prompt1 of
                Inl e \<Rightarrow> (Requeue e, db1, made)
              | Inr decision \<Rightarrow>
                  (case call_provider env body prompt1 decision made of
                     (Inl e, made1) \<Rightarrow> (Requeue e, db1, made1)
                   | (Inr (output_text, token_stats), made1) \<Rightarrow>
                       (Ack, record_success elapsed_ms jid decision token_stats db1, made1))))"

text \<open>A concrete run: one queued job, the two-row catalog, a provider that times out.\<close>

definition timeout_env :: worker_env where
  "timeout_env = \<lparr>DEFAULT_SYSTEM_PROMPT = ''Be brief.'', PII_REDACTION_ENABLED = True,
     LLM_TIMEOUT_S = 60,
     maybe_redact_pii = (\<lambda>s. s), price_table = Inr [local_tiny, hosted_big],
     tokenizer = no_tiktoken,
     adapter_complete = (\<lambda>n c. Inl (HTTPError ''ReadTimeout''))\<rparr>"

definition hello_body :: message_body where
  "hello_body = \<lparr>b_prompt = Some ''hello'', b_redact_pii = False,
     b_expected_output_tokens = None, b_quality_floor = None, b_cost_ceiling_usd = None,
     b_provider_hints = Some [''provider'' \<mapsto> ''local'']\<rparr>"

definition one_job_db :: database where
  "one_job_db = \<lparr>jobs = [new_job ''j1'' None 5], job_costs = [], events = []\<rparr>"

definition hello_decision :: RouteDecision where
  "hello_decision =
     decision_of ''Be brief.'' (local_tiny, Fin 0, \<lparr>tokens_in = 1, tokens_out = 512\<rparr>)"

definition hello_call :: adapter_call where
  "hello_call = \<lparr>ac_adapter = ''local'', ac_model = ''tiny'', ac_prompt = ''hello'',
     ac_max_tokens = 512, ac_temperature = float_literal (2 / 10),
     ac_system_prompt = ''Be brief.'', ac_timeout_s = 60\<rparr>"

section \<open>The route endpoint (api/main.py)\<close>

text \<open>
  The API module has its own copies of the estimator and of the selection; where their
  names would clash with those of the routing policy they carry the prefix \<open>api\<close>, and
  the leading underscore of a private name is dropped. A row of \<^verbatim>\<open>_MODELS\<close> is a
  dictionary read with \<^verbatim>\<open>.get\<close>: \<open>None\<close> is a key that is absent.
\<close>

record PriceRow =
  m_provider :: "string option"
  m_model :: "string option"
  m_baseline_quality :: "int option"
  m_price_in_per_1k :: "pyfloat option"
  m_price_out_per_1k :: "pyfloat option"

text \<open>\<open>environ\<close> is the process environment, \<^verbatim>\<open>bool(os.getenv(k))\<close> the test.\<close>

definition has_key_for :: "(string \<rightharpoonup> string) \<Rightarrow> string option \<Rightarrow> bool" where
  "has_key_for environ p =
     (if p = Some ''openai'' then truthy (environ ''OPENAI_API_KEY'')
      else if p = Some ''anthropic'' then truthy (environ ''ANTHROPIC_API_KEY'')
      else if p = Some ''mistral'' then truthy (environ ''MISTRAL_API_KEY'')
      else if p = Some ''google'' then
        truthy (environ ''GOOGLE_API_KEY'') \<or> truthy (environ ''GOOGLE_GENAI_API_KEY'')
      else False)"

definition chars_to_tokens :: "int \<Rightarrow> int" where
  "chars_to_tokens chars = max 1 (chars div 4)"

definition api_estimate_tokens :: "string \<Rightarrow> int \<Rightarrow> int \<times> int" where
  "api_estimate_tokens prompt expected_out_tokens =
     (let ptoks = chars_to_tokens (int (length prompt));
          otoks = max 1 expected_out_tokens
      in (ptoks, otoks))"

definition estimate_cost :: "PriceRow \<Rightarrow> int \<Rightarrow> int \<Rightarrow> error + pyfloat" where
  "estimate_cost model_row in_tokens out_tokens =
     (let p_in = option_or (m_price_in_per_1k model_row) (Fin 0);
          p_out = option_or (m_price_out_per_1k model_row) (Fin 0)
      in case int_truediv in_tokens (Fin 1000) of
           Inl e \<Rightarrow> Inl e
         | Inr kin \<Rightarrow>
             (case int_truediv out_tokens (Fin 1000) of
                Inl e \<Rightarrow> Inl e
              | Inr kout \<Rightarrow> Inr (fadd (fmul kin p_in) (fmul kout p_out))))"

text \<open>Step 1 of \<^verbatim>\<open>_pick_model_by_policy\<close>: the loop gathering \<^verbatim>\<open>viable\<close>.\<close>

fun viable_of ::
  "(string \<rightharpoonup> string) \<Rightarrow> int \<Rightarrow> int \<Rightarrow> int \<Rightarrow> PriceRow list \<Rightarrow>
   error + (pyfloat \<times> PriceRow) list" where
  "viable_of environ quality_floor in_toks out_toks [] = Inr []"
| "viable_of environ quality_floor in_toks out_toks (m # ms) =
     (let q = option_or (m_baseline_quality m) 1
      in if q < quality_floor then viable_of environ quality_floor in_toks out_toks ms
         else if m_provider m \<noteq> Some ''ollama'' \<and> \<not> has_key_for environ (m_provider m)
         then viable_of environ quality_floor in_toks out_toks ms
         else
           (case estimate_cost m in_toks out_toks of
              Inl e \<Rightarrow> Inl e
            | Inr est \<Rightarrow>
                (case viable_of environ quality_floor in_toks out_toks ms of
                   Inl e \<Rightarrow> Inl e
                 | Inr rest \<Rightarrow> Inr ((est, m) # rest))))"

definition last_ditch_row :: PriceRow where
  "last_ditch_row = \<lparr>m_provider = Some ''ollama'', m_model = Some ''tinyllama'',
     m_baseline_quality = Some 2, m_price_in_per_1k = None, m_price_out_per_1k = None\<rparr>"

definition pick_model_by_policy ::
  "(string \<rightharpoonup> string) \<Rightarrow> PriceRow list \<Rightarrow> string \<Rightarrow> int \<Rightarrow> int \<Rightarrow> error + PriceRow" where
  "pick_model_by_policy environ MODELS prompt expected_out_tokens quality_floor =
     (case api_estimate_tokens prompt expected_out_tokens of
        (in_toks, out_toks) \<Rightarrow>
          (case viable_of environ quality_floor in_toks out_toks MODELS of
             Inl e \<Rightarrow> Inl e
           | Inr viable \<Rightarrow>
               if viable = [] then
                 (case filter (\<lambda>m. m_provider m = Some ''ollama'') MODELS of
                    m # _ \<Rightarrow> Inr m
                  | [] \<Rightarrow> Inr last_ditch_row)
               else
                 (case py_sort fst viable of
                    [] \<Rightarrow> Inl (IndexError ''list index out of range'')
                  | (est, m) # _ \<Rightarrow> Inr m)))"

text \<open>The simpler selection, \<^verbatim>\<open>choose_model\<close> of the API module.\<close>

definition triage_kinds :: "string list" where
  "triage_kinds = [''ms.mail_triage'', ''pd.inbox_lead_actions'', ''pd.mail_lead'',
     ''pd.thread_summary_to_pd'', ''g.gmail_summarize'', ''g.gmail_draft_reply'']"

definition api_choose_model :: "ollama_config \<Rightarrow> int \<Rightarrow> string option \<Rightarrow> string" where
  "api_choose_model cfg quality_floor integration_kind =
     (if integration_kind \<in> set (map Some triage_kinds) then MODEL_TRIAGE_PRIMARY cfg
      else if quality_floor \<le> 2 then ''tinyllama'' else ''phi3:mini'')"

record IntegrationSpec =
  kind :: string
  file_name :: "string option"
  folder :: "string option"
  extra :: "string \<rightharpoonup> string"

record RouteRequest =
  req_user_id :: string
  req_task_type :: string
  req_prompt :: string
  req_quality_floor :: int
  req_cost_ceiling_usd :: pyfloat
  req_expected_output_tokens :: int
  integration :: "IntegrationSpec option"

record RouteResponse =
  resp_job_id :: string
  resp_provider :: string
  resp_model :: string
  resp_output_text :: string
  resp_estimated_cost_usd :: pyfloat
  resp_latency_ms :: int
  cached :: bool
  artifact_uri :: "string option"
  integration_status :: "string option"

text \<open>
  The dictionary an integration returns: for \<^verbatim>\<open>integration_status\<close> the outer
  \<open>None\<close> is an absent key, for which \<^verbatim>\<open>route\<close> reports \<^verbatim>\<open>"ok"\<close>.
\<close>

record dispatch_result =
  r_artifact_uri :: "string option"
  r_integration_status :: "string option option"
  r_output_override :: "string option"

text \<open>
  The prompt templates are data: the four builders are parameters, total functions of
  the prefetched context and the user's prompt.
\<close>

record prompt_builders =
  build_triage_prompt :: "string \<Rightarrow> string \<Rightarrow> string"
  build_pd_mailtriage_prompt :: "string \<Rightarrow> string \<Rightarrow> string"
  build_pd_maillead_prompt :: "string \<Rightarrow> string \<Rightarrow> string"
  build_gmail_summary_prompt :: "string \<Rightarrow> string \<Rightarrow> string"

definition build_prompt :: "prompt_builders \<Rightarrow> RouteRequest \<Rightarrow> string option \<Rightarrow> string" where
  "build_prompt builders req pre =
     (case integration req of
        None \<Rightarrow> req_prompt req
      | Some spec \<Rightarrow>
          if truthy pre \<and> kind spec = ''ms.mail_triage'' then
            build_triage_prompt builders (str_or_empty pre) (req_prompt req)
          else if truthy pre \<and> kind spec = ''pd.inbox_lead_actions'' then
            build_pd_mailtriage_prompt builders (str_or_empty pre) (req_prompt req)
          else if truthy pre \<and> kind spec = ''pd.mail_lead'' then
            build_pd_maillead_prompt builders (str_or_empty pre) (req_prompt req)
          else if truthy pre \<and> kind spec = ''g.gmail_summarize'' then
            build_gmail_summary_prompt builders (str_or_empty pre) (req_prompt req)
          else if truthy pre then
            str_or_empty pre @ [CHR 0x0A, CHR 0x0A] @ ''=== USER REQUEST ==='' @ [CHR 0x0A] @
              req_prompt req
          else req_prompt req)"

text \<open>
  What \<^verbatim>\<open>route\<close> reaches outside itself: the environment and the loaded price table,
  the retry configuration, the prompt builders, the prefetch and the dispatch of an
  integration (each returning or raising), the model server, \<^verbatim>\<open>time.sleep\<close>, the random job id and the
  measured latency.
\<close>

record route_env =
  environ :: "string \<rightharpoonup> string"
  MODELS :: "PriceRow list"
  config :: ollama_config
  builders :: prompt_builders
  prefetch_context :: "string \<Rightarrow> IntegrationSpec \<Rightarrow> error + string option"
  ollama_server :: server
  time_sleep :: sleeper
  dispatch_integration :: "string \<Rightarrow> string \<Rightarrow> IntegrationSpec \<Rightarrow> error + dispatch_result"
  urandom_hex :: string
  elapsed :: int

text \<open>\<^verbatim>\<open>planned["provider"]\<close> and \<^verbatim>\<open>planned["model"]\<close>.\<close>

definition index_key :: "string \<Rightarrow> string option \<Rightarrow> error + string" where
  "index_key k v = (case v of None \<Rightarrow> Inl (KeyError k) | Some s \<Rightarrow> Inr s)"

text \<open>
  The plan and its coercion: the provider and model \<^verbatim>\<open>route\<close> will call and report.
\<close>

definition plan_model ::
  "route_env \<Rightarrow> RouteRequest \<Rightarrow> string \<Rightarrow> error + (string \<times> string)" where
  "plan_model env req prompt =
     (case pick_model_by_policy (environ env) (MODELS env) prompt
             (req_expected_output_tokens req) (req_quality_floor req) of
        Inl e \<Rightarrow> Inl e
      | Inr planned \<Rightarrow>
          (case index_key ''provider'' (m_provider planned) of
             Inl e \<Rightarrow> Inl e
           | Inr provider_name \<Rightarrow>
               (case index_key ''model'' (m_model planned) of
                  Inl e \<Rightarrow> Inl e
                | Inr model_name \<Rightarrow>
                    if provider_name \<noteq> ''ollama'' then
                      Inr (''ollama'',
                           api_choose_model (config env) (req_quality_floor req)
                             (map_option kind (integration req)))
                    else Inr (provider_name, model_name))))"

text \<open>The integration after the call, and the response.\<close>

definition finish_route ::
  "route_env \<Rightarrow> RouteRequest \<Rightarrow> string \<Rightarrow> string \<Rightarrow> string \<Rightarrow> error + RouteResponse" where
  "finish_route env req provider_name model_name output =
     (case integration req of
        None \<Rightarrow>
          Inr \<lparr>resp_job_id = urandom_hex env, resp_provider = provider_name,
               resp_model = model_name, resp_output_text = output,
               resp_estimated_cost_usd = Fin 0, resp_latency_ms = elapsed env, cached = False,
               artifact_uri = None, integration_status = None\<rparr>
      | Some spec \<Rightarrow>
          (case dispatch_integration env (kind spec) output spec of
             Inl e \<Rightarrow> Inl e
           | Inr result \<Rightarrow>
               Inr \<lparr>resp_job_id = urandom_hex env, resp_provider = provider_name,
                    resp_model = model_name,
                    resp_output_text =
                      (if truthy (r_output_override result)
                       then str_or_empty (r_output_override result) else output),
                    resp_estimated_cost_usd = Fin 0, resp_latency_ms = elapsed env,
                    cached = False,
                    artifact_uri = r_artifact_uri result,
                    integration_status = option_or (r_integration_status result) (Some ''ok'')\<rparr>))"

definition route ::
  "route_env \<Rightarrow> RouteRequest \<Rightarrow> event list \<Rightarrow> (error + RouteResponse) \<times> event list" where
  "route env req w =
     (case (case integration req of
              None \<Rightarrow> Inr None
            | Some spec \<Rightarrow> prefetch_context env (kind spec) spec) of
        Inl e \<Rightarrow> (Inl e, w)
      | Inr pre \<Rightarrow>
          (let prompt = build_prompt (builders env) req pre
           in case plan_model env req prompt of
                Inl e \<Rightarrow> (Inl e, w)
              | Inr (provider_name, model_name) \<Rightarrow>
                  (case call_ollama (config env) (time_sleep env) (ollama_server env) model_name prompt
                          (RETRIES (config env)) w of
                     (Inl e, w') \<Rightarrow> (Inl e, w')
                   | (Inr output, w') \<Rightarrow>
                       (finish_route env req provider_name model_name output, w'))))"

text \<open>
  A concrete deployment: a hosted row whose key is configured and is the only row of the
  required quality, and a server that answers.
\<close>

definition hosted_env :: route_env where
  "hosted_env = \<lparr>
     environ = [''OPENAI_API_KEY'' \<mapsto> ''sk-test''],
     MODELS = [\<lparr>m_provider = Some ''ollama'', m_model = Some ''tinyllama'',
                m_baseline_quality = Some 2, m_price_in_per_1k = Some (Fin 0),
                m_price_out_per_1k = Some (Fin 0)\<rparr>,
               \<lparr>m_provider = Some ''openai'', m_model = Some ''gpt-4o-mini'',
                m_baseline_quality = Some 4,
                m_price_in_per_1k = Some (float_literal (15 / 100)),
                m_price_out_per_1k = Some (float_literal (6 / 10))\<rparr>],
     config = default_config,
     builders = \<lparr>build_triage_prompt = (\<lambda>c p. c @ p),
                 build_pd_mailtriage_prompt = (\<lambda>c p. c @ p),
                 build_pd_maillead_prompt = (\<lambda>c p. c @ p),
                 build_gmail_summary_prompt = (\<lambda>c p. c @ p)\<rparr>,
     prefetch_context = (\<lambda>k s. Inr None),
     ollama_server = (\<lambda>n m p. Inr (Some ''Hello.'')),
     time_sleep = sleep_ok,
     dispatch_integration =
       (\<lambda>k out s. Inr \<lparr>r_artifact_uri = None, r_integration_status = None,
                        r_output_override = None\<rparr>),
     urandom_hex = ''00112233aabbccdd'',
     elapsed = 1500\<rparr>"

definition hosted_request :: RouteRequest where
  "hosted_request = \<lparr>req_user_id = ''u1'', req_task_type = ''summarize'',
     req_prompt = ''Summarise this email'', req_quality_floor = 4,
     req_cost_ceiling_usd = float_literal (5 / 100), req_expected_output_tokens = 128,
     integration = None\<rparr>"

section \<open>Verification: float comparisons and the sort\<close>

lemma flt_irrefl [simp]: "\<not> flt x x"
  by (cases x) auto

lemma flt_NaN [simp]: "\<not> flt x NaN" "\<not> flt NaN y"
  by (cases x) auto

lemma fadd_NaN [simp]: "fadd x NaN = NaN"
  by (cases x) auto

lemma fmul_NaN [simp]: "fmul x NaN = NaN"
  by (cases x) auto

lemma flt_trans: "flt x y \<Longrightarrow> flt y z \<Longrightarrow> flt x z"
  by (cases x; cases y; cases z) auto





lemma fle_NaN [simp]: "\<not> fle NaN y" "\<not> fle x NaN"
  by (simp_all add: fle_def)

lemma py_sort_Cons: "py_sort k (x # xs) = py_insort k x (py_sort k xs)"
  by (simp add: py_sort_def)

lemma py_sort_Nil [simp]: "py_sort k [] = []"
  by (simp add: py_sort_def)

lemma set_py_insort: "set (py_insort k x ys) = insert x (set ys)"
  by (induction ys) auto

lemma set_py_sort: "set (py_sort k xs) = set xs"
  by (induction xs) (simp_all add: py_sort_Cons set_py_insort)





section \<open>Verification: evaluating float operations\<close>

text \<open>
  Rules with which the simplifier computes \<open>round_double\<close> on numerals, and the values
  of the operations that the concrete inputs below need.
\<close>

lemma bit_length_0 [simp]: "bit_length 0 = 0"
  by (simp add: bit_length.simps)

lemma bit_length_1 [simp]: "bit_length 1 = 1" "bit_length (Suc 0) = 1"
  by (simp_all add: bit_length.simps)

lemma bit_length_Bit0 [simp]:
  "bit_length (numeral (Num.Bit0 k)) = bit_length (numeral k) + 1"
  by (subst bit_length.simps) simp

lemma bit_length_Bit1 [simp]:
  "bit_length (numeral (Num.Bit1 k)) = bit_length (numeral k) + 1"
  by (subst bit_length.simps) simp

lemma floor_rat_numeral_div [simp]:
  "\<lfloor>(numeral a :: rat) / numeral b\<rfloor> = numeral a div numeral b"
  using floor_divide_of_int_eq[of "numeral a" "numeral b", where ?'a = rat] by simp

lemma ceiling_rat_numeral_div [simp]:
  "\<lceil>(numeral a :: rat) / numeral b\<rceil> = - ((- numeral a) div numeral b)"
  using floor_divide_of_int_eq[of "- numeral a" "numeral b", where ?'a = rat]
  by (simp add: ceiling_def)

lemmas float_eval = round_double_def ilog2_def pow2_def round_half_even_def Let_def
  float_literal_def float_of_int_def int_truediv_def fmul_int_def

lemma float_of_int_0 [simp]: "float_of_int 0 = Inr (Fin 0)"
  by (simp add: float_of_int_def round_double_def)

lemma int_truediv_0 [simp]: "int_truediv 0 (Fin 1000) = Inr (Fin 0)"
  by (simp add: int_truediv_def round_double_def)

lemma round_double_0 [simp]: "round_double 0 = Fin 0"
  by (simp add: round_double_def)

lemma int_truediv_1: "int_truediv 1 (Fin 1000) = Inr (Fin (1152921504606847 / 1152921504606846976))"
  by (simp add: float_eval)

lemma int_truediv_5: "int_truediv 5 (Fin 1000) = Inr (Fin (5764607523034235 / 1152921504606846976))"
  by (simp add: float_eval)

lemma int_truediv_9: "int_truediv 9 (Fin 1000) = Inr (Fin (5188146770730811 / 576460752303423488))"
  by (simp add: float_eval)

lemma int_truediv_50: "int_truediv 50 (Fin 1000) = Inr (Fin (3602879701896397 / 72057594037927936))"
  by (simp add: float_eval)

lemma int_truediv_100: "int_truediv 100 (Fin 1000) = Inr (Fin (3602879701896397 / 36028797018963968))"
  by (simp add: float_eval)

lemma int_truediv_128: "int_truediv 128 (Fin 1000) = Inr (Fin (1152921504606847 / 9007199254740992))"
  by (simp add: float_eval)

lemma int_truediv_200: "int_truediv 200 (Fin 1000) = Inr (Fin (3602879701896397 / 18014398509481984))"
  by (simp add: float_eval)

lemma int_truediv_512: "int_truediv 512 (Fin 1000) = Inr (Fin (1152921504606847 / 2251799813685248))"
  by (simp add: float_eval)

lemmas int_truediv_eval = int_truediv_1 int_truediv_5 int_truediv_9 int_truediv_50
  int_truediv_100 int_truediv_128 int_truediv_200 int_truediv_512

lemma float_literal_0002: "float_literal (2 / 1000) = Fin (1152921504606847 / 576460752303423488)"
  by (simp add: float_eval)

lemma float_literal_0006: "float_literal (6 / 1000) = Fin (3458764513820541 / 576460752303423488)"
  by (simp add: float_eval)

lemma float_literal_0001: "float_literal (1 / 1000) = Fin (1152921504606847 / 1152921504606846976)"
  by (simp add: float_eval)

lemma float_literal_000001: "float_literal (1 / 100000) = Fin (5902958103587057 / 590295810358705651712)"
  by (simp add: float_eval)

lemma float_literal_01: "float_literal (1 / 10) = Fin (3602879701896397 / 36028797018963968)"
  by (simp add: float_eval)

lemma float_literal_03: "float_literal (3 / 10) = Fin (5404319552844595 / 18014398509481984)"
  by (simp add: float_eval)

lemmas float_literal_eval = float_literal_0002 float_literal_0006 float_literal_0001
  float_literal_000001 float_literal_01 float_literal_03

section \<open>Verification: routing policy and token estimation\<close>




lemma dropped_candidates_of_Nil:
  "\<forall>r \<in> set rows. consider_row tk inp eot qf ceil hints r = Inr None \<Longrightarrow>
   candidates_of tk inp eot qf ceil hints rows = Inr []"
  by (induction rows) auto





lemma hosted_big_fields:
  "provider hosted_big = ''hosted''" "model hosted_big = ''big''"
  "max_input_tokens hosted_big = 1000000" "max_output_tokens hosted_big = 1000000"
  "baseline_quality hosted_big = 4"
  by (simp_all add: hosted_big_def)

lemma cost_hosted_5_50:
  "estimated_cost hosted_big \<lparr>tokens_in = 5, tokens_out = 50\<rparr> = Inr (Fin (2859245331424981 / 9223372036854775808))"
  by (simp add: estimated_cost_def hosted_big_def int_truediv_eval float_literal_def
      round_double_def ilog2_def pow2_def round_half_even_def Let_def)

lemma cost_hosted_1_50:
  "estimated_cost hosted_big \<lparr>tokens_in = 1, tokens_out = 50\<rparr> = Inr (Fin (5570916710260285 / 18446744073709551616))"
  by (simp add: estimated_cost_def hosted_big_def int_truediv_eval float_literal_def
      round_double_def ilog2_def pow2_def round_half_even_def Let_def)

lemma cost_local_5_50:
  "estimated_cost local_tiny \<lparr>tokens_in = 5, tokens_out = 50\<rparr> = Inr (Fin 0)"
  "estimated_cost local_tiny2 \<lparr>tokens_in = 5, tokens_out = 50\<rparr> = Inr (Fin 0)"
  by (simp_all add: estimated_cost_def local_tiny_def local_tiny2_def int_truediv_eval)



lemmas row_eval = consider_row_def hint_rejects_def estimate_tokens_def approx_tokens_def
  no_tiktoken_def hosted_big_fields Let_def

lemma kept_hosted_summarise:
  "consider_row no_tiktoken ''Summarise this email'' 50 2 (Fin 0) Map.empty hosted_big =
     Inr (Some (hosted_big, Fin (2859245331424981 / 9223372036854775808), \<lparr>tokens_in = 5, tokens_out = 50\<rparr>))"
  by (simp add: row_eval cost_hosted_5_50)

lemma kept_local_summarise:
  "consider_row no_tiktoken ''Summarise this email'' 50 2 (Fin 0) Map.empty local_tiny =
     Inr (Some (local_tiny, Fin 0, \<lparr>tokens_in = 5, tokens_out = 50\<rparr>))"
  "consider_row no_tiktoken ''Summarise this email'' 50 2 (Fin 0) Map.empty local_tiny2 =
     Inr (Some (local_tiny2, Fin 0, \<lparr>tokens_in = 5, tokens_out = 50\<rparr>))"
  using cost_local_5_50 by (simp_all add: row_eval local_tiny_def local_tiny2_def)



lemma candidates_summarise:
  "candidates_of no_tiktoken ''Summarise this email'' 50 2 (Fin 0) Map.empty
     [hosted_big, local_tiny, local_tiny2] =
     Inr [(hosted_big, Fin (2859245331424981 / 9223372036854775808), \<lparr>tokens_in = 5, tokens_out = 50\<rparr>),
          (local_tiny, Fin 0, \<lparr>tokens_in = 5, tokens_out = 50\<rparr>),
          (local_tiny2, Fin 0, \<lparr>tokens_in = 5, tokens_out = 50\<rparr>)]"
  by (simp add: kept_hosted_summarise kept_local_summarise)


text \<open>
  On that catalog the first of the two free rows is returned, and not the second.
\<close>

lemma scenario_cheapest_is_local:
  "choose_model ''Be brief.'' no_tiktoken [hosted_big, local_tiny, local_tiny2]
     ''Summarise this email'' 50 2 (Fin 0) Map.empty =
   Inr (decision_of ''Be brief.'' (local_tiny, Fin 0, \<lparr>tokens_in = 5, tokens_out = 50\<rparr>))"
  by (simp add: choose_model_def candidates_summarise py_sort_def del: candidates_of.simps)

text \<open>
  The rounding of the float arithmetic decides between rows that exact arithmetic would
  tie: for one input and nine output tokens \<open>nine_in\<close> costs 0.009000000000000001 and
  \<open>one_out\<close> 0.009, so the second row is returned though it is listed last.
\<close>

lemma cost_nine_in:
  "estimated_cost nine_in \<lparr>tokens_in = 1, tokens_out = 9\<rparr> = Inr (Fin (1297036692682703 / 144115188075855872))"
  by (simp add: estimated_cost_def nine_in_def int_truediv_eval
      round_double_def ilog2_def pow2_def round_half_even_def Let_def)

lemma cost_one_out:
  "estimated_cost one_out \<lparr>tokens_in = 1, tokens_out = 9\<rparr> = Inr (Fin (5188146770730811 / 576460752303423488))"
  by (simp add: estimated_cost_def one_out_def int_truediv_eval
      round_double_def ilog2_def pow2_def round_half_even_def Let_def)

lemma rounding_decides_choice:
  "choose_model ''Be brief.'' no_tiktoken [nine_in, one_out] ''abcd'' 9 1 (Fin 0) Map.empty =
   Inr (decision_of ''Be brief.'' (one_out, Fin (5188146770730811 / 576460752303423488), \<lparr>tokens_in = 1, tokens_out = 9\<rparr>))"
proof -
  have a: "consider_row no_tiktoken ''abcd'' 9 1 (Fin 0) Map.empty nine_in =
     Inr (Some (nine_in, Fin (1297036692682703 / 144115188075855872), \<lparr>tokens_in = 1, tokens_out = 9\<rparr>))"
    using cost_nine_in
    by (simp add: consider_row_def hint_rejects_def estimate_tokens_def approx_tokens_def
        nine_in_def)
  have b: "consider_row no_tiktoken ''abcd'' 9 1 (Fin 0) Map.empty one_out =
     Inr (Some (one_out, Fin (5188146770730811 / 576460752303423488), \<lparr>tokens_in = 1, tokens_out = 9\<rparr>))"
    using cost_one_out
    by (simp add: consider_row_def hint_rejects_def estimate_tokens_def approx_tokens_def
        one_out_def)
  show ?thesis by (simp add: choose_model_def a b py_sort_def)
qed

text \<open>
  Claim C2 says that an empty candidate set raises \<^verbatim>\<open>NoViableModelError\<close>. On the
  two-row catalog with quality floor 4 and a ceiling of 0.00001 nothing survives, and what
  is raised is not of that class.
\<close>

lemma dropped_hello:
  "consider_row no_tiktoken ''hello'' 50 4 (float_literal (1 / 100000)) Map.empty local_tiny =
     Inr None"
  "consider_row no_tiktoken ''hello'' 50 4 (float_literal (1 / 100000)) Map.empty hosted_big =
     Inr None"
  by (simp_all add: row_eval local_tiny_def cost_hosted_1_50 float_literal_000001)

theorem choose_model_no_candidates_counterexample:
  "candidates_of no_tiktoken ''hello'' 50 4 (float_literal (1 / 100000)) Map.empty
     [local_tiny, hosted_big] = Inr [] \<and>
   \<not> (\<exists>e. choose_model ''Be brief.'' no_tiktoken [local_tiny, hosted_big] ''hello'' 50 4
              (float_literal (1 / 100000)) Map.empty = Inl e \<and>
            exc_class e = ''NoViableModelError'')"
  by (simp add: choose_model_def dropped_hello)

text \<open>
  Claim C2, amended. When every row of the catalog is eliminated by the filters,
  \<^verbatim>\<open>choose_model\<close> raises \<^verbatim>\<open>ValueError\<close> with the message that asks to lower
  \<^verbatim>\<open>quality_floor\<close> or raise \<^verbatim>\<open>cost_ceiling_usd\<close>; it returns no decision.
\<close>

theorem choose_model_no_candidates:
  assumes "\<forall>r \<in> set price_rows. consider_row tk inp eot qf ceil hints r = Inr None"
  shows "choose_model P tk price_rows inp eot qf ceil hints = Inl (ValueError no_models_message)"
proof -
  have "candidates_of tk inp eot qf ceil hints price_rows = Inr []"
    using assms by (rule dropped_candidates_of_Nil)
  then show ?thesis by (simp add: choose_model_def)
qed

theorem choose_model_no_candidates_witness:
  "consider_row no_tiktoken ''hello'' 50 4 (float_literal (1 / 100000)) Map.empty local_tiny =
     Inr None \<and>
   consider_row no_tiktoken ''hello'' 50 4 (float_literal (1 / 100000)) Map.empty hosted_big =
     Inr None \<and>
   choose_model ''Be brief.'' no_tiktoken [local_tiny, hosted_big] ''hello'' 50 4
     (float_literal (1 / 100000)) Map.empty = Inl (ValueError no_models_message)"
proof -
  have h: "\<forall>r \<in> set [local_tiny, hosted_big].
      consider_row no_tiktoken ''hello'' 50 4 (float_literal (1 / 100000)) Map.empty r =
        Inr None"
    by (simp add: dropped_hello)
  from choose_model_no_candidates[OF h] dropped_hello show ?thesis by simp
qed





text \<open>
  The budget gate compares the rounded cost: 100 input and 200 output tokens at a price
  of 1.0 cost 0.30000000000000004, which exceeds a ceiling of 0.3, so the row is skipped.
\<close>

lemma cost_unit_priced:
  "estimated_cost unit_priced \<lparr>tokens_in = 100, tokens_out = 200\<rparr> = Inr (Fin (1351079888211149 / 4503599627370496))"
  by (simp add: estimated_cost_def unit_priced_def int_truediv_eval
      round_double_def ilog2_def pow2_def round_half_even_def Let_def)

lemma rounding_exceeds_ceiling:
  "choose_model ''Be brief.'' hundred_tokens [unit_priced] ''x'' 200 1 (float_literal (3 / 10))
     Map.empty = Inl (ValueError no_models_message)"
proof -
  have "consider_row hundred_tokens ''x'' 200 1 (float_literal (3 / 10)) Map.empty unit_priced =
     Inr None"
    using cost_unit_priced
    by (simp add: consider_row_def hint_rejects_def estimate_tokens_def count_tokens_openai_def
        hundred_tokens_def unit_priced_def float_literal_03)
  then show ?thesis by (simp add: choose_model_def)
qed

text \<open>
  Claim C4 says that away from the exact tokenizer \<^verbatim>\<open>estimate_tokens\<close> gives
  \<open>max 1 (length div 4)\<close> and \<open>max 1 expected_output_tokens\<close>, also for the empty prompt
  and for zero. For the empty prompt and zero expected output tokens the code gives 0 and 0.
\<close>

theorem estimate_tokens_heuristic_counterexample:
  "estimate_tokens no_tiktoken ''ollama'' ''llama3'' '''' 0 =
     \<lparr>tokens_in = 0, tokens_out = 0\<rparr> \<and>
   estimate_tokens no_tiktoken ''ollama'' ''llama3'' '''' 0 \<noteq>
     \<lparr>tokens_in = max 1 (int (length '''') div 4), tokens_out = max 1 0\<rparr>"
  by (simp add: estimate_tokens_def approx_tokens_def)

text \<open>
  Claim C4, amended. For every provider other than \<^verbatim>\<open>openai\<close>, every prompt and every
  integer \<^verbatim>\<open>expected_output_tokens\<close>, \<^verbatim>\<open>estimate_tokens\<close> gives \<open>tokens_in = 0\<close>
  for the empty prompt and \<open>max 1 (length div 4)\<close> for any other, and gives
  \<open>tokens_out = expected_output_tokens\<close> unchanged.
\<close>

theorem estimate_tokens_heuristic:
  assumes "provider_name \<noteq> ''openai''"
  shows "estimate_tokens tk provider_name model_name prompt expected_output_tokens =
           \<lparr>tokens_in = (if prompt = [] then 0 else max 1 (int (length prompt) div 4)),
            tokens_out = expected_output_tokens\<rparr>"
  using assms by (simp add: estimate_tokens_def approx_tokens_def)

theorem estimate_tokens_heuristic_witness:
  "''ollama'' \<noteq> ''openai'' \<and>
   estimate_tokens no_tiktoken ''ollama'' ''llama3'' ''Summarise this email'' (-3) =
     \<lparr>tokens_in = 5, tokens_out = -3\<rparr>"
proof -
  have h: "''ollama'' \<noteq> ''openai''" by simp
  from estimate_tokens_heuristic[OF h, of no_tiktoken "''llama3''" "''Summarise this email''" "-3"] h
  show ?thesis by simp
qed

section \<open>Verification: retry, backoff and fallback\<close>

lemma posts_append [simp]: "posts (xs @ ys) = posts xs @ posts ys"
  by (induction xs rule: posts.induct) auto

lemma waits_append [simp]: "waits (xs @ ys) = waits xs @ waits ys"
  by (induction xs rule: waits.induct) auto

lemma posts_retry_trace [simp]: "posts (retry_trace cfg m a n) = replicate n m"
  by (induction cfg m a n rule: retry_trace.induct) auto

lemma posts_replicate_Post [simp]: "posts (replicate k (Post m)) = replicate k m"
  by (induction k) auto

lemma fmul_int_value:
  "fmul_int x n = Inr d \<Longrightarrow> d = fmul x (round_double (of_int n))"
  by (auto simp: fmul_int_def float_of_int_def split: pyfloat.splits)

lemma call_ollama_loop_trace:
  assumes "b = nat (retries + 1)"
  shows "\<exists>n k. n \<le> b - a \<and>
     k \<le> (if m = MODEL_TRIAGE_PRIMARY cfg \<and> MODEL_TRIAGE_FALLBACK cfg \<noteq> [] then 1 else 0) \<and>
     (a < b \<longrightarrow> 0 < n) \<and>
     snd (call_ollama_loop cfg sl ollama m prompt retries [a..<b] w) =
       w @ retry_trace cfg m a n @ replicate k (Post (MODEL_TRIAGE_FALLBACK cfg))"
proof (induction "b - a" arbitrary: a w)
  case 0
  then have e: "[a..<b] = []" by simp
  have "snd (call_ollama_loop cfg sl ollama m prompt retries [a..<b] w) =
       w @ retry_trace cfg m a 0 @ replicate 0 (Post (MODEL_TRIAGE_FALLBACK cfg))"
    unfolding e by simp
  moreover have "\<not> a < b" using 0 by simp
  ultimately show ?case by (metis le0)
next
  case (Suc d)
  let ?F = "MODEL_TRIAGE_FALLBACK cfg"
  let ?w1 = "w @ [Post m]"
  have ab: "a < b" using Suc.hyps(2) by simp
  then have upt: "[a..<b] = a # [Suc a..<b]" by (simp add: upt_rec)
  let ?r = "call_ollama_loop cfg sl ollama m prompt retries [a..<b] w"
  have one: "?w1 = w @ retry_trace cfg m a 1 @ replicate 0 (Post ?F)" by simp
  have b1: "1 \<le> b - a" using ab by simp
  have single: "snd ?r = ?w1 \<Longrightarrow> ?case"
  proof -
    assume "snd ?r = ?w1"
    then have "snd ?r = w @ retry_trace cfg m a 1 @ replicate 0 (Post ?F)" by simp
    moreover have "(0::nat) \<le> (if m = MODEL_TRIAGE_PRIMARY cfg \<and> ?F \<noteq> [] then 1 else 0)"
      "(0::nat) < 1" by simp_all
    ultimately show ?case using b1 by blast
  qed
  show ?case
  proof (cases "ollama (length (posts w)) m prompt")
    case (Inr data)
    then have "snd ?r = ?w1" by (simp add: upt post_generate_def)
    then show ?thesis by (rule single)
  next
    case (Inl e)
    show ?thesis
    proof (cases "caught e")
      case False
      then have "snd ?r = ?w1" using Inl by (simp add: upt post_generate_def)
      then show ?thesis by (rule single)
    next
      case True
      show ?thesis
      proof (cases "int a < retries")
        case retry: True
        show ?thesis
        proof (cases "fmul_int (RETRY_BACKOFF_S cfg) (int a + 1)")
          case (Inl e')
          then have "snd ?r = ?w1"
            using \<open>ollama (length (posts w)) m prompt = Inl e\<close> True retry
            by (simp add: upt post_generate_def)
          then show ?thesis by (rule single)
        next
          case (Inr dl)
          have dl: "dl = backoff_wait cfg (Suc a)"
            using fmul_int_value[OF Inr] by (simp add: backoff_wait_def add.commute)
          show ?thesis
          proof (cases "sl dl")
            case (Some e')
            then have "snd ?r = ?w1"
              using \<open>ollama (length (posts w)) m prompt = Inl e\<close> True retry Inr
              by (simp add: upt post_generate_def)
            then show ?thesis by (rule single)
          next
            case None
            let ?w2 = "?w1 @ [Slept dl]"
            have eq: "?r = call_ollama_loop cfg sl ollama m prompt retries [Suc a..<b] ?w2"
              using \<open>ollama (length (posts w)) m prompt = Inl e\<close> True retry Inr None
              by (simp add: upt post_generate_def)
            have sab: "Suc a < b" using retry assms by simp
            have "d = b - Suc a" using Suc.hyps(2) by simp
            from Suc.hyps(1)[OF this, of ?w2] sab obtain n k where
              nk: "n \<le> b - Suc a"
                  "k \<le> (if m = MODEL_TRIAGE_PRIMARY cfg \<and> ?F \<noteq> [] then 1 else 0)" "0 < n"
                  "snd (call_ollama_loop cfg sl ollama m prompt retries [Suc a..<b] ?w2) =
                     ?w2 @ retry_trace cfg m (Suc a) n @ replicate k (Post ?F)"
              by blast
            from nk(3) obtain n' where n': "n = Suc n'" by (cases n) auto
            have "snd ?r = w @ retry_trace cfg m a (Suc n) @ replicate k (Post ?F)"
              using eq nk(4) n' dl by simp
            moreover have "Suc n \<le> b - a" using nk(1) sab by simp
            ultimately show ?thesis using nk(2) by blast
          qed
        qed
      next
        case last: False
        show ?thesis
        proof (cases "m = MODEL_TRIAGE_PRIMARY cfg \<and> ?F \<noteq> []")
          case fb: True
          have "snd ?r = w @ retry_trace cfg m a 1 @ replicate 1 (Post ?F)"
            using Inl True last fb by (simp add: upt post_generate_def split: sum.splits)
          moreover have "(1::nat) \<le> (if m = MODEL_TRIAGE_PRIMARY cfg \<and> ?F \<noteq> [] then 1 else 0)"
            "(0::nat) < 1" using fb by simp_all
          ultimately show ?thesis using b1 by blast
        next
          case False
          then have "snd ?r = ?w1"
            using Inl True last by (auto simp: upt post_generate_def)
          then show ?thesis by (rule single)
        qed
      qed
    qed
  qed
qed

lemma call_ollama_trace:
  "\<exists>n k. int n \<le> max 0 (retries + 1) \<and>
     k \<le> (if m = MODEL_TRIAGE_PRIMARY cfg \<and> MODEL_TRIAGE_FALLBACK cfg \<noteq> [] then 1 else 0) \<and>
     snd (call_ollama cfg sl ollama m prompt retries w) =
       w @ retry_trace cfg m 0 n @ replicate k (Post (MODEL_TRIAGE_FALLBACK cfg))"
proof -
  obtain n k where
    nk: "n \<le> nat (retries + 1) - 0"
        "k \<le> (if m = MODEL_TRIAGE_PRIMARY cfg \<and> MODEL_TRIAGE_FALLBACK cfg \<noteq> [] then 1 else 0)"
        "snd (call_ollama_loop cfg sl ollama m prompt retries [0..<nat (retries + 1)] w) =
           w @ retry_trace cfg m 0 n @ replicate k (Post (MODEL_TRIAGE_FALLBACK cfg))"
    using call_ollama_loop_trace[of "nat (retries + 1)" retries 0] by blast
  have "int n \<le> max 0 (retries + 1)" using nk(1) by simp
  then show ?thesis using nk(2,3) unfolding call_ollama_def by blast
qed

lemma backoff_eval:
  "fmul_int (Fin 5) 1 = Inr (Fin 5)" "fmul_int (Fin 5) 2 = Inr (Fin 10)"
  "fmul_int (Fin 5) 3 = Inr (Fin 15)"
  by (simp_all add: float_eval)

lemma trace_default_timeout:
  "snd (call_ollama default_config sleep_ok always_timeout ''phi3:mini'' ''ok''
          (RETRIES default_config) []) =
     [Post ''phi3:mini'', Slept (Fin 5), Post ''phi3:mini'', Slept (Fin 10),
      Post ''phi3:mini'', Post ''tinyllama'']"
  by (simp add: call_ollama_def default_config_def always_timeout_def sleep_ok_def
      post_generate_def upt_rec backoff_eval)

text \<open>
  Claim C6 bounds the calls of the primary model by the configured maximum number of
  attempts. The one maximum of attempts that is configured, \<^verbatim>\<open>max_attempts\<close> of the
  retry policy, is 2 by default, and so is the number of retries \<^verbatim>\<open>OLLAMA_RETRIES\<close>;
  against a server that always times out the primary model is called three times.
\<close>

theorem call_ollama_attempts_counterexample:
  "posts (snd (call_ollama default_config sleep_ok always_timeout ''phi3:mini'' ''ok''
                 (RETRIES default_config) [])) =
     [''phi3:mini'', ''phi3:mini'', ''phi3:mini'', ''tinyllama''] \<and>
   \<not> int (length (filter (\<lambda>m. m = ''phi3:mini'')
          (posts (snd (call_ollama default_config sleep_ok always_timeout ''phi3:mini'' ''ok''
                         (RETRIES default_config) [])))))
       \<le> max_attempts default_policy \<and>
   \<not> int (length (filter (\<lambda>m. m = ''phi3:mini'')
          (posts (snd (call_ollama default_config sleep_ok always_timeout ''phi3:mini'' ''ok''
                         (RETRIES default_config) [])))))
       \<le> RETRIES default_config"
  unfolding trace_default_timeout by (simp add: default_policy_def default_config_def)

text \<open>
  Claim C6, amended. Whatever the server answers, and so also when it fails on every
  call, \<^verbatim>\<open>call_ollama\<close> posts at most \<open>retries + 1\<close> requests for the model it was given
  (one more than the configured number of retries \<^verbatim>\<open>OLLAMA_RETRIES\<close>), then at most one
  request for the fallback model, and nothing after that.
\<close>

theorem call_ollama_call_bound:
  "\<exists>n k. int n \<le> max 0 (retries + 1) \<and> k \<le> 1 \<and>
     posts (snd (call_ollama cfg sl ollama m prompt retries w)) =
       posts w @ replicate n m @ replicate k (MODEL_TRIAGE_FALLBACK cfg)"
proof -
  obtain n k where
    nk: "int n \<le> max 0 (retries + 1)"
        "k \<le> (if m = MODEL_TRIAGE_PRIMARY cfg \<and> MODEL_TRIAGE_FALLBACK cfg \<noteq> [] then 1 else 0)"
        "snd (call_ollama cfg sl ollama m prompt retries w) =
           w @ retry_trace cfg m 0 n @ replicate k (Post (MODEL_TRIAGE_FALLBACK cfg))"
    using call_ollama_trace by blast
  have "posts (snd (call_ollama cfg sl ollama m prompt retries w)) =
       posts w @ replicate n m @ replicate k (MODEL_TRIAGE_FALLBACK cfg)"
    by (simp add: nk(3))
  moreover have "k \<le> 1" using nk(2) by (simp split: if_splits)
  ultimately show ?thesis using nk(1) by blast
qed

text \<open>
  Claim C7 says that the waits between retries grow by a constant factor greater than 1.
  With three retries against a server that always times out the waits are 5, 10 and 15
  seconds: no single factor takes 5 to 10 and 10 to 15.
\<close>

theorem call_ollama_backoff_counterexample:
  "snd (call_ollama default_config sleep_ok always_timeout ''tinyllama'' ''ok'' 3 []) =
     [Post ''tinyllama'', Slept (Fin 5), Post ''tinyllama'', Slept (Fin 10),
      Post ''tinyllama'', Slept (Fin 15), Post ''tinyllama''] \<and>
   \<not> grows_exponentially
       (waits (snd (call_ollama default_config sleep_ok always_timeout ''tinyllama'' ''ok'' 3
                      [])))"
proof -
  have s: "snd (call_ollama default_config sleep_ok always_timeout ''tinyllama'' ''ok'' 3 []) =
     [Post ''tinyllama'', Slept (Fin 5), Post ''tinyllama'', Slept (Fin 10),
      Post ''tinyllama'', Slept (Fin 15), Post ''tinyllama'']"
    by (simp add: call_ollama_def default_config_def always_timeout_def sleep_ok_def
        post_generate_def upt_rec backoff_eval)
  have "\<not> grows_exponentially [Fin 5, Fin 10, Fin 15]"
    by (auto simp: grows_exponentially_def)
  with s show ?thesis by simp
qed

text \<open>
  Claim C7, amended. The waits of \<^verbatim>\<open>call_ollama\<close> grow linearly. What it does is a
  request for the model, then for each retry one wait followed by one request, the wait
  before the \<open>i\<close>-th retry being \<open>i\<close> times \<^verbatim>\<open>RETRY_BACKOFF_S\<close> (a float product), and
  at the end at most one request for the fallback model, made only for the triage model
  with a fallback configured; there are at most \<open>retries\<close> retries.
\<close>

theorem call_ollama_backoff_linear:
  "\<exists>n k. int n \<le> max 0 (retries + 1) \<and>
     k \<le> (if m = MODEL_TRIAGE_PRIMARY cfg \<and> MODEL_TRIAGE_FALLBACK cfg \<noteq> [] then 1 else 0) \<and>
     snd (call_ollama cfg sl ollama m prompt retries w) =
       w @ retry_trace cfg m 0 n @ replicate k (Post (MODEL_TRIAGE_FALLBACK cfg))"
  by (rule call_ollama_trace)

text \<open>
  For a number of attempts the float can hold exactly, \<open>backoff_wait\<close> is the float
  product with that number; with the default 5 seconds the first three waits are 5, 10
  and 15.
\<close>

lemma backoff_wait_default:
  "backoff_wait default_config 1 = Fin 5" "backoff_wait default_config 2 = Fin 10"
  "backoff_wait default_config 3 = Fin 15"
  by (simp_all add: backoff_wait_def default_config_def float_eval)

text \<open>
  When \<^verbatim>\<open>time.sleep\<close> raises, as for a negative \<^verbatim>\<open>RETRY_BACKOFF_S\<close>, the exception
  ends \<^verbatim>\<open>call_ollama\<close> after the first request.
\<close>

lemma call_ollama_sleep_raises:
  "call_ollama (default_config\<lparr>RETRY_BACKOFF_S := Fin (- 5)\<rparr>)
     (\<lambda>d. if flt d (Fin 0) then Some (ValueError ''sleep length must be non-negative'') else None)
     always_timeout ''phi3:mini'' ''ok'' 2 [] =
   (Inl (ValueError ''sleep length must be non-negative''), [Post ''phi3:mini''])"
  by (simp add: call_ollama_def default_config_def always_timeout_def post_generate_def upt_rec
      float_eval)

section \<open>Verification: token usage of the adapters\<close>

text \<open>
  Claim C8 says that when the upstream response omits the usage fields, the adapter
  returns the estimator's estimate for the prompt. For a local-server response without
  them the adapter returns 0 and 0, which is no estimate of the non-empty prompt,
  whatever the expected output length.
\<close>

theorem complete_usage_counterexample:
  "OllamaAdapter_complete
     (Inr \<lparr>response = Some ''Hi there. '', prompt_eval_count = None, eval_count = None\<rparr>) =
     Inr (''Hi there.'', \<lparr>tokens_in = 0, tokens_out = 0\<rparr>) \<and>
   \<not> (\<exists>n. \<lparr>tokens_in = 0, tokens_out = 0\<rparr> =
          estimate_tokens no_tiktoken ''ollama'' ''llama3'' ''Summarise this email'' n)"
  by (simp add: OllamaAdapter_complete_def strip_def is_space_def str_or_empty_def
      int_or_0_def estimate_tokens_def approx_tokens_def)

text \<open>
  Claim C8, amended. For every successful provider response the local-server adapter and
  (with its key configured) the OpenAI adapter return a text and a token-usage pair, and
  when the response omits the usage fields the pair is 0 and 0; a missing usage field
  never makes either fail.
\<close>

theorem complete_usage_zero:
  "(\<exists>text t. OllamaAdapter_complete (Inr j) = Inr (text, t) \<and>
      (prompt_eval_count j = None \<and> eval_count j = None \<longrightarrow>
         t = \<lparr>tokens_in = 0, tokens_out = 0\<rparr>)) \<and>
   (truthy key \<longrightarrow>
      (\<exists>text t. OpenAIAdapter_complete key (Inr k) = Inr (text, t) \<and>
         (usage k = None \<longrightarrow> t = \<lparr>tokens_in = 0, tokens_out = 0\<rparr>)))"
  by (simp add: OllamaAdapter_complete_def OpenAIAdapter_complete_def int_or_0_def
      usage_field_def Let_def)

theorem complete_usage_zero_witness:
  "prompt_eval_count \<lparr>response = Some ''Hi'', prompt_eval_count = None, eval_count = None\<rparr> = None \<and>
   eval_count \<lparr>response = Some ''Hi'', prompt_eval_count = None, eval_count = None\<rparr> = None \<and>
   snd (projr (OllamaAdapter_complete
     (Inr \<lparr>response = Some ''Hi'', prompt_eval_count = None, eval_count = None\<rparr>))) =
     \<lparr>tokens_in = 0, tokens_out = 0\<rparr> \<and>
   truthy (Some ''sk-test'') \<and>
   usage \<lparr>choices = Some [\<lparr>message = Some \<lparr>content = Some ''Hi''\<rparr>\<rparr>], usage = None\<rparr> = None \<and>
   snd (projr (OpenAIAdapter_complete (Some ''sk-test'')
     (Inr \<lparr>choices = Some [\<lparr>message = Some \<lparr>content = Some ''Hi''\<rparr>\<rparr>], usage = None\<rparr>))) =
     \<lparr>tokens_in = 0, tokens_out = 0\<rparr>"
  using complete_usage_zero[of
      "\<lparr>response = Some ''Hi'', prompt_eval_count = None, eval_count = None\<rparr>"
      "Some ''sk-test''"
      "\<lparr>choices = Some [\<lparr>message = Some \<lparr>content = Some ''Hi''\<rparr>\<rparr>], usage = None\<rparr>"]
  by (auto simp: truthy_def)

section \<open>Verification: idempotent submission\<close>

lemma insert_job_fresh:
  "job_id d \<notin> job_id ` set tbl \<Longrightarrow> insert_job tbl d = Inr (d, tbl @ [d])"
  by (simp add: insert_job_def)

lemma update_last_row:
  "job_id d \<notin> job_id ` set tbl \<Longrightarrow>
   map (\<lambda>j. if job_id j = job_id d then d' else j) (tbl @ [d]) = tbl @ [d']"
  by (induction tbl) auto

lemma filter_no_match: "\<forall>j \<in> set tbl. \<not> P j \<Longrightarrow> filter P tbl = []"
  by (induction tbl) auto

text \<open>
  Claim C9. Take a non-empty key \<open>k\<close>, a table with no job of that key, and a job \<open>d1\<close>
  carrying the key under a fresh \<^verbatim>\<open>job_id\<close>. Submitting \<open>d1\<close> inserts it; submitting any
  second job \<open>d2\<close> under the same key then returns \<open>d1\<close> with its \<^verbatim>\<open>updated_at\<close>
  refreshed and inserts nothing, so the table holds exactly one job of that key and one
  row more than at the start. A submission with no key (\<^verbatim>\<open>None\<close> or the empty string)
  of a job with a fresh \<^verbatim>\<open>job_id\<close> always inserts it.
\<close>

theorem upsert_idempotent:
  assumes "k \<noteq> []" and "dedupe_key d1 = Some k"
    and "\<forall>j \<in> set tbl. dedupe_key j \<noteq> Some k"
    and "job_id d1 \<notin> job_id ` set tbl"
  shows "upsert_job_by_dedupe_key t1 tbl (Some k) d1 = Inr (d1, tbl @ [d1]) \<and>
         upsert_job_by_dedupe_key t2 (tbl @ [d1]) (Some k) d2 =
           Inr (d1\<lparr>updated_at := t2\<rparr>, tbl @ [d1\<lparr>updated_at := t2\<rparr>]) \<and>
         filter (\<lambda>j. dedupe_key j = Some k) (tbl @ [d1\<lparr>updated_at := t2\<rparr>]) =
           [d1\<lparr>updated_at := t2\<rparr>] \<and>
         length (tbl @ [d1\<lparr>updated_at := t2\<rparr>]) = length tbl + 1 \<and>
         (\<forall>key d t tbl'. \<not> truthy key \<and> job_id d \<notin> job_id ` set tbl' \<longrightarrow>
            upsert_job_by_dedupe_key t tbl' key d = Inr (d, tbl' @ [d]))"
proof -
  have none: "filter (\<lambda>j. dedupe_key j = Some k) tbl = []"
    using assms(3) by (simp add: filter_no_match)
  have first: "upsert_job_by_dedupe_key t1 tbl (Some k) d1 = Inr (d1, tbl @ [d1])"
    using assms(1,4) none by (simp add: upsert_job_by_dedupe_key_def truthy_def insert_job_fresh)
  have one: "filter (\<lambda>j. dedupe_key j = Some k) (tbl @ [d1]) = [d1]"
    using none assms(2) by simp
  have second: "upsert_job_by_dedupe_key t2 (tbl @ [d1]) (Some k) d2 =
           Inr (d1\<lparr>updated_at := t2\<rparr>, tbl @ [d1\<lparr>updated_at := t2\<rparr>])"
    using assms(1) one update_last_row[OF assms(4)]
    by (simp add: upsert_job_by_dedupe_key_def truthy_def Let_def)
  have third: "filter (\<lambda>j. dedupe_key j = Some k) (tbl @ [d1\<lparr>updated_at := t2\<rparr>]) =
           [d1\<lparr>updated_at := t2\<rparr>]"
    using none assms(2) by simp
  have nokey: "\<forall>key d t tbl'. \<not> truthy key \<and> job_id d \<notin> job_id ` set tbl' \<longrightarrow>
            upsert_job_by_dedupe_key t tbl' key d = Inr (d, tbl' @ [d])"
    by (simp add: upsert_job_by_dedupe_key_def insert_job_fresh)
  show ?thesis using first second third nokey by simp
qed

theorem upsert_idempotent_witness:
  "''order-42'' \<noteq> [] \<and>
   dedupe_key (new_job ''j2'' (Some ''order-42'') 10) = Some ''order-42'' \<and>
   dedupe_key (new_job ''j1'' None 5) \<noteq> Some ''order-42'' \<and>
   job_id (new_job ''j2'' (Some ''order-42'') 10) \<noteq> job_id (new_job ''j1'' None 5) \<and>
   upsert_job_by_dedupe_key 10 [new_job ''j1'' None 5] (Some ''order-42'')
       (new_job ''j2'' (Some ''order-42'') 10) =
     Inr (new_job ''j2'' (Some ''order-42'') 10,
          [new_job ''j1'' None 5, new_job ''j2'' (Some ''order-42'') 10]) \<and>
   upsert_job_by_dedupe_key 20
       [new_job ''j1'' None 5, new_job ''j2'' (Some ''order-42'') 10] (Some ''order-42'')
       (new_job ''j3'' (Some ''order-42'') 20) =
     Inr ((new_job ''j2'' (Some ''order-42'') 10)\<lparr>updated_at := 20\<rparr>,
          [new_job ''j1'' None 5, (new_job ''j2'' (Some ''order-42'') 10)\<lparr>updated_at := 20\<rparr>]) \<and>
   \<not> truthy None \<and>
   upsert_job_by_dedupe_key 30 [new_job ''j1'' None 5] None (new_job ''j4'' None 30) =
     Inr (new_job ''j4'' None 30, [new_job ''j1'' None 5, new_job ''j4'' None 30])"
proof -
  have a: "''order-42'' \<noteq> []" by simp
  have b: "dedupe_key (new_job ''j2'' (Some ''order-42'') 10) = Some ''order-42''"
    by (simp add: new_job_def)
  have c: "\<forall>j \<in> set [new_job ''j1'' None 5]. dedupe_key j \<noteq> Some ''order-42''"
    by (simp add: new_job_def)
  have d: "job_id (new_job ''j2'' (Some ''order-42'') 10) \<notin> job_id ` set [new_job ''j1'' None 5]"
    by (simp add: new_job_def)
  have e: "\<not> truthy None \<and> job_id (new_job ''j4'' None 30) \<notin> job_id ` set [new_job ''j1'' None 5]"
    by (simp add: new_job_def truthy_def)
  from upsert_idempotent[OF a b c d, of 10 20 "new_job ''j3'' (Some ''order-42'') 20"] e
  show ?thesis using b c d by (auto simp: truthy_def)
qed

section \<open>Verification: the worker on a failed provider call\<close>

lemma find_map_status:
  "find (\<lambda>j. job_id j = jid) rows = Some job \<Longrightarrow>
   find (\<lambda>j. job_id j = jid)
     (map (\<lambda>j. if job_id j = jid then j\<lparr>status := s\<rparr> else j) rows) =
     Some (job\<lparr>status := s\<rparr>)"
  by (induction rows) (auto split: if_splits)

lemma get_job_by_id_set_status:
  "get_job_by_id db jid = Some job \<Longrightarrow>
   get_job_by_id (set_status jid s db) jid = Some (job\<lparr>status := s\<rparr>)"
  by (simp add: get_job_by_id_def set_status_def find_map_status)

lemma hello_job: "get_job_by_id one_job_db ''j1'' = Some (new_job ''j1'' None 5)"
  by (simp add: get_job_by_id_def one_job_db_def new_job_def)

lemma hello_prompt: "prepare_prompt timeout_env hello_body = ''hello''"
  by (simp add: prepare_prompt_def timeout_env_def hello_body_def option_or_def)

lemma hello_cost:
  "estimated_cost local_tiny \<lparr>tokens_in = 1, tokens_out = 512\<rparr> = Inr (Fin 0)"
  by (simp add: estimated_cost_def local_tiny_def int_truediv_eval)

lemma hello_choice: "choose_for timeout_env hello_body ''hello'' = Inr hello_decision"
proof -
  have a: "consider_row no_tiktoken ''hello'' 512 1 (float_literal (1 / 10))
      [''provider'' \<mapsto> ''local''] local_tiny =
     Inr (Some (local_tiny, Fin 0, \<lparr>tokens_in = 1, tokens_out = 512\<rparr>))"
    using hello_cost
    by (simp add: consider_row_def hint_rejects_def estimate_tokens_def approx_tokens_def
        local_tiny_def float_literal_01)
  have b: "consider_row no_tiktoken ''hello'' 512 1 (float_literal (1 / 10))
      [''provider'' \<mapsto> ''local''] hosted_big = Inr None"
    by (simp add: consider_row_def hint_rejects_def hosted_big_fields)
  show ?thesis
    by (simp add: choose_for_def timeout_env_def hello_body_def option_or_def
        choose_model_def a b py_sort_def hello_decision_def)
qed

lemma hello_request:
  "provider_request timeout_env hello_body ''hello'' hello_decision ''local'' = hello_call"
  by (simp add: provider_request_def hello_decision_def decision_of_def local_tiny_def
      hello_body_def option_or_def timeout_env_def hello_call_def)

lemma hello_registry: "LLMAdapterRegistry_get (rd_provider hello_decision) = Inr ''local''"
  by (simp add: LLMAdapterRegistry_get_def hello_decision_def decision_of_def local_tiny_def)

text \<open>
  Claim C5 says that a job whose provider call fails for good ends with status
  \<^verbatim>\<open>failed\<close>. A queued job whose provider times out ends with status
  \<^verbatim>\<open>running\<close>, after one provider call, the message going back to the queue.
\<close>

theorem handle_message_failure_counterexample:
  "handle_message timeout_env 1200 ''j1'' hello_body one_job_db [] =
     (Requeue (HTTPError ''ReadTimeout''),
      \<lparr>jobs = [(new_job ''j1'' None 5)\<lparr>status := running\<rparr>], job_costs = [], events = []\<rparr>,
      [hello_call]) \<and>
   map status (jobs (fst (snd (handle_message timeout_env 1200 ''j1'' hello_body one_job_db [])))) \<noteq>
     [failed]"
proof -
  have "handle_message timeout_env 1200 ''j1'' hello_body one_job_db [] =
     (Requeue (HTTPError ''ReadTimeout''),
      \<lparr>jobs = [(new_job ''j1'' None 5)\<lparr>status := running\<rparr>], job_costs = [], events = []\<rparr>,
      [hello_call])"
    using hello_registry hello_request
    by (simp add: handle_message_def hello_job hello_prompt hello_choice call_provider_def)
      (simp add: timeout_env_def set_status_def one_job_db_def new_job_def)
  then show ?thesis by (simp add: new_job_def)
qed

text \<open>
  Claim C5, amended. When the job exists, a model is chosen, its provider is registered
  and the call of that provider fails with an error, the worker has made exactly that one
  provider call, with no retry and no fallback; it lets the error through to the queue
  transport, which gets the message back for redelivery, and the job keeps the status
  \<^verbatim>\<open>running\<close> that the worker committed before the call. The worker never sets
  \<^verbatim>\<open>failed\<close>.
\<close>

theorem handle_message_provider_failure:
  assumes "get_job_by_id db jid = Some job"
    and "choose_for env body (prepare_prompt env body) = Inr decision"
    and "LLMAdapterRegistry_get (rd_provider decision) = Inr adapter"
    and "adapter_complete env (length made)
           (provider_request env body (prepare_prompt env body) decision adapter) = Inl e"
  shows "handle_message env elapsed_ms jid body db made =
           (Requeue e, set_status jid running db,
            made @ [provider_request env body (prepare_prompt env body) decision adapter]) \<and>
         get_job_by_id (set_status jid running db) jid = Some (job\<lparr>status := running\<rparr>) \<and>
         job_costs (set_status jid running db) = job_costs db"
proof -
  have "handle_message env elapsed_ms jid body db made =
           (Requeue e, set_status jid running db,
            made @ [provider_request env body (prepare_prompt env body) decision adapter])"
    using assms by (simp add: handle_message_def call_provider_def Let_def)
  moreover have "get_job_by_id (set_status jid running db) jid = Some (job\<lparr>status := running\<rparr>)"
    using assms(1) by (rule get_job_by_id_set_status)
  moreover have "job_costs (set_status jid running db) = job_costs db"
    by (simp add: set_status_def)
  ultimately show ?thesis by simp
qed

theorem handle_message_provider_failure_witness:
  "get_job_by_id one_job_db ''j1'' = Some (new_job ''j1'' None 5) \<and>
   choose_for timeout_env hello_body (prepare_prompt timeout_env hello_body) =
     Inr hello_decision \<and>
   LLMAdapterRegistry_get (rd_provider hello_decision) = Inr ''local'' \<and>
   adapter_complete timeout_env (length ([] :: adapter_call list))
     (provider_request timeout_env hello_body (prepare_prompt timeout_env hello_body)
        hello_decision ''local'') = Inl (HTTPError ''ReadTimeout'') \<and>
   handle_message timeout_env 1200 ''j1'' hello_body one_job_db [] =
     (Requeue (HTTPError ''ReadTimeout''), set_status ''j1'' running one_job_db,
      [hello_call]) \<and>
   get_job_by_id (set_status ''j1'' running one_job_db) ''j1'' =
     Some ((new_job ''j1'' None 5)\<lparr>status := running\<rparr>)"
proof -
  have b: "choose_for timeout_env hello_body (prepare_prompt timeout_env hello_body) =
     Inr hello_decision"
    by (simp add: hello_prompt hello_choice)
  have d: "adapter_complete timeout_env (length ([] :: adapter_call list))
     (provider_request timeout_env hello_body (prepare_prompt timeout_env hello_body)
        hello_decision ''local'') = Inl (HTTPError ''ReadTimeout'')"
    by (simp add: timeout_env_def)
  from handle_message_provider_failure[OF hello_job b hello_registry d, of 1200]
    hello_job b hello_registry d hello_request
  show ?thesis by (simp add: hello_prompt)
qed

text \<open>
  On no input does the worker turn a job to \<^verbatim>\<open>failed\<close>: a job has that status after
  the handler only if it had it before.
\<close>

lemma set_status_keeps_failed:
  "j' \<in> set (jobs (set_status jid s db)) \<Longrightarrow> status j' = failed \<Longrightarrow> s \<noteq> failed \<Longrightarrow>
   j' \<in> set (jobs db)"
  by (auto simp: set_status_def split: if_splits)

lemma jobs_record_success:
  "jobs (record_success elapsed_ms jid decision token_stats db1) =
   (case get_job_by_id db1 jid of None \<Rightarrow> jobs db1
    | Some db_job \<Rightarrow> jobs (set_status jid succeeded db1))"
  by (simp add: record_success_def record_event_def record_cost_def split: option.splits)

lemma handle_message_jobs_cases:
  "jobs (fst (snd (handle_message env elapsed_ms jid body db made))) = jobs db \<or>
   jobs (fst (snd (handle_message env elapsed_ms jid body db made))) =
     jobs (set_status jid running db) \<or>
   jobs (fst (snd (handle_message env elapsed_ms jid body db made))) =
     jobs (set_status jid succeeded (set_status jid running db))"
  by (simp add: handle_message_def jobs_record_success Let_def
      split: option.splits sum.splits prod.splits)

lemma handle_message_never_fails_a_job:
  assumes "j' \<in> set (jobs (fst (snd (handle_message env elapsed_ms jid body db made))))"
    and "status j' = failed"
  shows "j' \<in> set (jobs db)"
proof -
  have r: "running \<noteq> failed" and s: "succeeded \<noteq> failed" by simp_all
  from handle_message_jobs_cases[of env elapsed_ms jid body db made] assms(1)
  consider "j' \<in> set (jobs db)"
    | "j' \<in> set (jobs (set_status jid running db))"
    | "j' \<in> set (jobs (set_status jid succeeded (set_status jid running db)))"
    by auto
  then show ?thesis
  proof cases
    case 1
    then show ?thesis .
  next
    case 2
    then show ?thesis using assms(2) r by (rule set_status_keeps_failed)
  next
    case 3
    then have "j' \<in> set (jobs (set_status jid running db))"
      using assms(2) s by (rule set_status_keeps_failed)
    then show ?thesis using assms(2) r by (rule set_status_keeps_failed)
  qed
qed

text \<open>
  Nor does it call a provider more than once: the list of calls made grows by at most one call.
\<close>

lemma handle_message_at_most_one_call:
  "\<exists>cs. snd (snd (handle_message env elapsed_ms jid body db made)) = made @ cs \<and> length cs \<le> 1"
  by (auto simp: handle_message_def call_provider_def Let_def
      split: option.splits sum.splits prod.splits)

section \<open>Verification: what the route endpoint reports\<close>

lemma viable_of_rows:
  "viable_of getenv quality_floor in_toks out_toks ms = Inr viable \<Longrightarrow>
   (est, m) \<in> set viable \<Longrightarrow> m \<in> set ms"
  by (induction ms arbitrary: viable) (auto simp: Let_def split: if_splits sum.splits)

lemma pick_model_by_policy_row:
  assumes "pick_model_by_policy getenv ms prompt expected_out_tokens quality_floor = Inr m"
  shows "m = last_ditch_row \<or> m \<in> set ms"
proof -
  obtain in_toks out_toks where
    toks: "api_estimate_tokens prompt expected_out_tokens = (in_toks, out_toks)"
    by (cases "api_estimate_tokens prompt expected_out_tokens")
  from assms toks obtain viable where
    v: "viable_of getenv quality_floor in_toks out_toks ms = Inr viable"
    by (auto simp: pick_model_by_policy_def split: sum.splits)
  show ?thesis
  proof (cases "viable = []")
    case True
    show ?thesis
    proof (cases "filter (\<lambda>m. m_provider m = Some ''ollama'') ms")
      case Nil
      then show ?thesis using assms toks v True by (simp add: pick_model_by_policy_def)
    next
      case (Cons f fs)
      then have "f \<in> set (filter (\<lambda>m. m_provider m = Some ''ollama'') ms)" by simp
      then have "f \<in> set ms" by simp
      moreover have "m = f" using assms toks v True Cons by (simp add: pick_model_by_policy_def)
      ultimately show ?thesis by simp
    qed
  next
    case False
    show ?thesis
    proof (cases "py_sort fst viable")
      case Nil
      then show ?thesis using assms toks v False by (simp add: pick_model_by_policy_def)
    next
      case (Cons x xs)
      obtain est m' where x: "x = (est, m')" by (cases x)
      have "x \<in> set (py_sort fst viable)" using Cons by simp
      then have "(est, m') \<in> set viable" using x by (simp add: set_py_sort)
      with v have "m' \<in> set ms" by (rule viable_of_rows)
      moreover have "m = m'"
        using assms toks v False Cons x by (simp add: pick_model_by_policy_def)
      ultimately show ?thesis by simp
    qed
  qed
qed

lemma plan_model_local:
  assumes "plan_model env req prompt = Inr (p, mo)"
  shows "p = ''ollama'' \<and>
         (mo = api_choose_model (config env) (req_quality_floor req)
                 (map_option kind (integration req)) \<or>
          mo = ''tinyllama'' \<or>
          (\<exists>row \<in> set (MODELS env). m_provider row = Some ''ollama'' \<and> m_model row = Some mo))"
proof -
  from assms obtain planned where
    planned: "pick_model_by_policy (environ env) (MODELS env) prompt
                (req_expected_output_tokens req) (req_quality_floor req) = Inr planned"
    by (auto simp: plan_model_def split: sum.splits)
  from assms planned obtain pn mn where
    keys: "m_provider planned = Some pn" "m_model planned = Some mn"
    by (auto simp: plan_model_def index_key_def split: sum.splits option.splits)
  have row: "planned = last_ditch_row \<or> planned \<in> set (MODELS env)"
    using planned by (rule pick_model_by_policy_row)
  show ?thesis
  proof (cases "pn = ''ollama''")
    case True
    then have res: "p = ''ollama''" "mo = mn"
      using assms planned keys by (simp_all add: plan_model_def index_key_def)
    from row show ?thesis
    proof
      assume "planned = last_ditch_row"
      then have "mn = ''tinyllama''" using keys(2) by (simp add: last_ditch_row_def)
      then show ?thesis using res by simp
    next
      assume "planned \<in> set (MODELS env)"
      then show ?thesis using res keys True by blast
    qed
  next
    case False
    then show ?thesis using assms planned keys by (simp add: plan_model_def index_key_def)
  qed
qed

lemma finish_route_fields:
  assumes "finish_route env req p mo output = Inr resp"
  shows "resp_provider resp = p \<and> resp_model resp = mo \<and> resp_estimated_cost_usd resp = Fin 0"
  using assms by (auto simp: finish_route_def split: option.splits sum.splits)

text \<open>
  Claim C10. Every response that \<^verbatim>\<open>route\<close> returns has provider \<^verbatim>\<open>ollama\<close> and an
  estimated cost of 0; its model is a local one: the preset of the simpler selection
  (to which a hosted plan is coerced before the call), the model of an \<^verbatim>\<open>ollama\<close> row of
  the price table, or the last-ditch \<^verbatim>\<open>tinyllama\<close>.
\<close>

theorem route_reports_local:
  assumes "route env req w = (Inr resp, w')"
  shows "resp_provider resp = ''ollama'' \<and> resp_estimated_cost_usd resp = Fin 0 \<and>
         (resp_model resp = api_choose_model (config env) (req_quality_floor req)
                              (map_option kind (integration req)) \<or>
          resp_model resp = ''tinyllama'' \<or>
          (\<exists>row \<in> set (MODELS env).
             m_provider row = Some ''ollama'' \<and> m_model row = Some (resp_model resp)))"
proof -
  from assms obtain pre where
    pre: "(case integration req of None \<Rightarrow> Inr None
           | Some spec \<Rightarrow> prefetch_context env (kind spec) spec) = Inr pre"
    by (auto simp: route_def split: sum.splits)
  let ?prompt = "build_prompt (builders env) req pre"
  from assms pre obtain p mo where plan: "plan_model env req ?prompt = Inr (p, mo)"
    by (auto simp: route_def Let_def split: sum.splits)
  obtain r w1 where call:
    "call_ollama (config env) (time_sleep env) (ollama_server env) mo ?prompt
       (RETRIES (config env)) w = (r, w1)"
    by (cases "call_ollama (config env) (time_sleep env) (ollama_server env) mo ?prompt
       (RETRIES (config env)) w")
  from assms pre plan call obtain out where
    fin: "finish_route env req p mo out = Inr resp"
    by (auto simp: route_def Let_def split: sum.splits)
  from finish_route_fields[OF fin] plan_model_local[OF plan] show ?thesis by simp
qed

theorem route_reports_local_witness:
  "route hosted_env hosted_request [] =
     (Inr \<lparr>resp_job_id = ''00112233aabbccdd'', resp_provider = ''ollama'',
           resp_model = ''phi3:mini'', resp_output_text = ''Hello.'',
           resp_estimated_cost_usd = Fin 0, resp_latency_ms = 1500, cached = False,
           artifact_uri = None, integration_status = None\<rparr>,
      [Post ''phi3:mini'']) \<and>
   pick_model_by_policy (environ hosted_env) (MODELS hosted_env) ''Summarise this email'' 128 4 =
     Inr \<lparr>m_provider = Some ''openai'', m_model = Some ''gpt-4o-mini'',
          m_baseline_quality = Some 4,
          m_price_in_per_1k = Some (float_literal (15 / 100)),
          m_price_out_per_1k = Some (float_literal (6 / 10))\<rparr>"
proof -
  have pick: "pick_model_by_policy (environ hosted_env) (MODELS hosted_env)
      ''Summarise this email'' 128 4 =
     Inr \<lparr>m_provider = Some ''openai'', m_model = Some ''gpt-4o-mini'',
          m_baseline_quality = Some 4,
          m_price_in_per_1k = Some (float_literal (15 / 100)),
          m_price_out_per_1k = Some (float_literal (6 / 10))\<rparr>"
    by (simp add: pick_model_by_policy_def hosted_env_def api_estimate_tokens_def
        chars_to_tokens_def option_or_def has_key_for_def truthy_def estimate_cost_def Let_def
        int_truediv_eval py_sort_def)
  have run: "route hosted_env hosted_request [] =
     (Inr \<lparr>resp_job_id = ''00112233aabbccdd'', resp_provider = ''ollama'',
           resp_model = ''phi3:mini'', resp_output_text = ''Hello.'',
           resp_estimated_cost_usd = Fin 0, resp_latency_ms = 1500, cached = False,
           artifact_uri = None, integration_status = None\<rparr>,
      [Post ''phi3:mini''])"
    using pick
    by (simp add: route_def plan_model_def build_prompt_def hosted_request_def index_key_def
        api_choose_model_def triage_kinds_def finish_route_def call_ollama_def
        post_generate_def response_text_def default_config_def upt_rec
        hosted_env_def)
  from route_reports_local[OF run] run pick show ?thesis by simp
qed

end
